theory Spec2Isabelle
  imports Complex_Main
begin

section \<open>The browser as the controllers see it\<close>

text \<open>
  The Stimulus controllers of the frontend are event handlers over the DOM, the network
  (\<^verbatim>\<open>fetch\<close>) and \<^verbatim>\<open>localStorage\<close>. Each handler is modelled as a function from the state before
  to the state after, run until the handler and the timers it started are done. An
  \<^verbatim>\<open>await\<close> is sequential composition; an exception is a branch of the model.

  Values read from a response body or from \<^verbatim>\<open>JSON.parse\<close> are JSON values. A property that is
  absent reads as \<^verbatim>\<open>undefined\<close>, which is \<open>None\<close> of \<open>json option\<close>. Numbers are the
  integers (ids, millisecond time stamps); strings are lists of 8-bit code units.
\<close>

datatype json =
    JNull
  | JBool bool
  | JNum int
  | JStr string
  | JArr "json list"
  | JObj "(string \<times> json) list"

text \<open>Reading \<^verbatim>\<open>v.k\<close> for a value \<open>v\<close> that is not \<^verbatim>\<open>null\<close>, and for one of the names the
  controllers read (\<^verbatim>\<open>status\<close>, \<^verbatim>\<open>message\<close>, \<^verbatim>\<open>steps\<close>, ...): only an object has such a property.
  On \<^verbatim>\<open>null\<close> the read throws a TypeError; every caller tests for \<open>JNull\<close> first.\<close>

fun get_prop :: "json \<Rightarrow> string \<Rightarrow> json option" where
  "get_prop (JObj kvs) k = map_of kvs k"
| "get_prop _ k = None"

text \<open>JavaScript's truthiness, as \<^verbatim>\<open>if (v)\<close>, \<^verbatim>\<open>!v\<close>, \<^verbatim>\<open>a || b\<close> and \<^verbatim>\<open>a && b\<close> test it.\<close>

fun truthy :: "json option \<Rightarrow> bool" where
  "truthy None = False"
| "truthy (Some JNull) = False"
| "truthy (Some (JBool b)) = b"
| "truthy (Some (JNum n)) = (n \<noteq> 0)"
| "truthy (Some (JStr s)) = (s \<noteq> [])"
| "truthy (Some (JArr xs)) = True"
| "truthy (Some (JObj kvs)) = True"

text \<open>The requests the controllers send. A path segment written \<^verbatim>\<open>${this.blogPostId}\<close> carries
  the value that is interpolated, whatever it is.\<close>

datatype request =
    ValidateUrl string
  | CreateProject string
  | PipelineStart nat
  | PipelineStep "json option" string
  | PipelineRetry "json option" string
  | PipelineStatus "json option"
  | GenerateBlogContent nat
  | TaskStatus "json option"

text \<open>What \<^verbatim>\<open>await fetch(...)\<close> gives: the promise is rejected (\<open>NetworkError\<close>), or there is a
  response with its \<^verbatim>\<open>ok\<close> flag and its body as \<^verbatim>\<open>response.json()\<close> reads it (\<open>None\<close>
  when the body is not JSON and \<^verbatim>\<open>json()\<close> rejects).\<close>

datatype response =
    NetworkError
  | Response bool "json option"

text \<open>The backend is not part of the frontend's code: it is any function from the requests
  received so far (the last one is the request being answered) to a response.\<close>

type_synonym server = "request list \<Rightarrow> response"

datatype level = Success | Failure

text \<open>A text shown to the user: a literal of the source, or a value of the run converted to a
  string by the runtime.\<close>

datatype shown_text =
    Lit string
  | Dyn "json option"
  | RuntimeError

datatype event =
    Fetch request
  | SetTimeout nat
  | ShowMessage level shown_text
  | Alert string

record browser =
  events :: "event list"
  localStorage :: "string \<rightharpoonup> string"

fun requests :: "event list \<Rightarrow> request list" where
  "requests [] = []"
| "requests (Fetch r # es) = r # requests es"
| "requests (e # es) = requests es"

definition emit :: "event \<Rightarrow> 'a browser_scheme \<Rightarrow> 'a browser_scheme" where
  "emit e b = b\<lparr>events := events b @ [e]\<rparr>"

definition fetch :: "server \<Rightarrow> request \<Rightarrow> 'a browser_scheme \<Rightarrow> response \<times> 'a browser_scheme" where
  "fetch srv r b = (srv (requests (events b) @ [r]), emit (Fetch r) b)"

text \<open>\<^verbatim>\<open>element.classList\<close> is a set of tokens; \<^verbatim>\<open>add\<close> and \<^verbatim>\<open>remove\<close> take several.\<close>

definition classList_add :: "string list \<Rightarrow> string set \<Rightarrow> string set" where
  "classList_add toks cs = cs \<union> set toks"

definition classList_remove :: "string list \<Rightarrow> string set \<Rightarrow> string set" where
  "classList_remove toks cs = cs - set toks"

text \<open>\<^verbatim>\<open>String.prototype.trim\<close>: white space and line terminators go from both ends. Of the
  code units below 256 these are tab, line feed, vertical tab, form feed, carriage return,
  space and the no-break space.\<close>

definition is_js_space :: "char \<Rightarrow> bool" where
  "is_js_space c = (c \<in> {CHR 0x09, CHR 0x0A, CHR 0x0B, CHR 0x0C, CHR 0x0D, CHR 0x20, CHR 0xA0})"

definition trim :: "string \<Rightarrow> string" where
  "trim s = rev (dropWhile is_js_space (rev (dropWhile is_js_space s)))"


section \<open>The onboarding modal (onboarding\_modal\_controller.js)\<close>

datatype href = Hash | ProjectUrl json

record onboarding = browser +
  currentStep :: nat
  createdProjectId :: "json option"
  isUrlReachable :: bool
  urlInput :: string
  continueDisabled :: bool
  step1 :: "string set"
  step2 :: "string set"
  step3 :: "string set"
  step1Indicator :: "string set"
  step2Indicator :: "string set"
  step3Indicator :: "string set"
  checkingIndicator :: "string set"
  reachableIndicator :: "string set"
  unreachableIndicator :: "string set"
  unreachableMessage :: shown_text
  hasProjectLinkTarget :: bool
  projectLink :: href
  fallbackLink :: "href option"

definition active_classes :: "string list" where
  "active_classes = [''bg-gray-800'', ''border-gray-800'', ''w-6'']"

definition inactive_classes :: "string list" where
  "inactive_classes = [''bg-gray-300'', ''border-gray-300'', ''w-4'']"

definition hideAllIndicators :: "onboarding \<Rightarrow> onboarding" where
  "hideAllIndicators st = st
     \<lparr>checkingIndicator := classList_remove [''flex''] (classList_add [''hidden''] (checkingIndicator st)),
      reachableIndicator := classList_remove [''flex''] (classList_add [''hidden''] (reachableIndicator st)),
      unreachableIndicator := classList_remove [''flex''] (classList_add [''hidden''] (unreachableIndicator st))\<rparr>"

definition show_unreachable :: "shown_text \<Rightarrow> onboarding \<Rightarrow> onboarding" where
  "show_unreachable msg st = st
     \<lparr>unreachableIndicator := classList_add [''flex''] (classList_remove [''hidden''] (unreachableIndicator st)),
      unreachableMessage := msg,
      isUrlReachable := False,
      continueDisabled := True\<rparr>"

text \<open>\<^verbatim>\<open>checkUrlReachability(url_value)\<close>. Every failure (a rejected fetch, a response that is
  not ok, a body that is not JSON, a \<^verbatim>\<open>null\<close> body whose \<^verbatim>\<open>reachable\<close> cannot be read) lands in
  the \<^verbatim>\<open>catch\<close> block.\<close>

definition checkUrlReachability :: "server \<Rightarrow> string \<Rightarrow> onboarding \<Rightarrow> onboarding" where
  "checkUrlReachability srv url_value st =
     (let (resp, st1) = fetch srv (ValidateUrl url_value) st;
          caught = show_unreachable (Lit ''Could not verify URL reachability'') (hideAllIndicators st1)
      in case resp of
           NetworkError \<Rightarrow> caught
         | Response ok body \<Rightarrow>
             if \<not> ok then caught
             else (case body of
                     None \<Rightarrow> caught
                   | Some JNull \<Rightarrow> caught
                   | Some data \<Rightarrow>
                       let st2 = hideAllIndicators st1 in
                       if truthy (get_prop data ''reachable'')
                       then st2\<lparr>reachableIndicator :=
                                   classList_add [''flex''] (classList_remove [''hidden''] (reachableIndicator st2)),
                                 isUrlReachable := True,
                                 continueDisabled := False\<rparr>
                       else show_unreachable
                              (if truthy (get_prop data ''message'') then Dyn (get_prop data ''message'')
                               else Lit ''URL is not reachable'') st2))"

text \<open>\<^verbatim>\<open>goToStep(step_number)\<close>. The project link is set on step 3 only, through the target or,
  without one, through the first \<^verbatim>\<open>a[href="#"]\<close> of the modal.\<close>

definition update_project_link :: "onboarding \<Rightarrow> onboarding" where
  "update_project_link st =
     (case createdProjectId st of
        None \<Rightarrow> st
      | Some pid \<Rightarrow>
          if \<not> truthy (Some pid) then st
          else if hasProjectLinkTarget st then st\<lparr>projectLink := ProjectUrl pid\<rparr>
          else if fallbackLink st = Some Hash then st\<lparr>fallbackLink := Some (ProjectUrl pid)\<rparr>
          else st)"

definition goToStep :: "nat \<Rightarrow> onboarding \<Rightarrow> onboarding" where
  "goToStep step_number st =
     (let st1 = st\<lparr>currentStep := step_number,
                    step1 := classList_add [''hidden''] (step1 st),
                    step2 := classList_add [''hidden''] (step2 st),
                    step3 := classList_add [''hidden''] (step3 st),
                    step1Indicator := classList_add inactive_classes (classList_remove active_classes (step1Indicator st)),
                    step2Indicator := classList_add inactive_classes (classList_remove active_classes (step2Indicator st)),
                    step3Indicator := classList_add inactive_classes (classList_remove active_classes (step3Indicator st))\<rparr>
      in if step_number = 1 then
           st1\<lparr>step1 := classList_add [''flex''] (classList_remove [''hidden''] (step1 st1)),
               step1Indicator := classList_add active_classes (classList_remove inactive_classes (step1Indicator st1))\<rparr>
         else if step_number = 2 then
           st1\<lparr>step2 := classList_add [''flex''] (classList_remove [''hidden''] (step2 st1)),
               step2Indicator := classList_add active_classes (classList_remove inactive_classes (step2Indicator st1))\<rparr>
         else if step_number = 3 then
           update_project_link
             (st1\<lparr>step3 := classList_add [''flex''] (classList_remove [''hidden''] (step3 st1)),
                  step3Indicator := classList_add active_classes (classList_remove inactive_classes (step3Indicator st1))\<rparr>)
         else st1)"

text \<open>\<^verbatim>\<open>submitProject()\<close>. The guard returns before anything is touched. Past it the modal goes
  to step 2 and the project is posted; a failure alerts and goes back to step 1, a success
  stores the id and goes to step 3 after 1.5 seconds.\<close>

definition submit_failed :: "onboarding \<Rightarrow> onboarding" where
  "submit_failed st =
     goToStep 1 (emit (Alert ''There was an error creating your project. Please try again.'') st)"

definition submitProject :: "server \<Rightarrow> onboarding \<Rightarrow> onboarding" where
  "submitProject srv st =
     (let url_value = trim (urlInput st) in
      if url_value = [] \<or> \<not> isUrlReachable st then st
      else
        let (resp, st2) = fetch srv (CreateProject url_value) (goToStep 2 st) in
        case resp of
          NetworkError \<Rightarrow> submit_failed st2
        | Response ok body \<Rightarrow>
            if \<not> ok then submit_failed st2
            else (case body of
                    None \<Rightarrow> submit_failed st2
                  | Some JNull \<Rightarrow> submit_failed st2
                  | Some data \<Rightarrow>
                      if get_prop data ''status'' \<noteq> Some (JStr ''success'') then submit_failed st2
                      else goToStep 3 (emit (SetTimeout 1500) (st2\<lparr>createdProjectId := get_prop data ''id''\<rparr>))))"

definition visible :: "string set \<Rightarrow> bool" where
  "visible cs = (''hidden'' \<notin> cs)"

definition carries :: "string list \<Rightarrow> string set \<Rightarrow> bool" where
  "carries toks cs = (set toks \<subseteq> cs)"

definition carries_none :: "string list \<Rightarrow> string set \<Rightarrow> bool" where
  "carries_none toks cs = (set toks \<inter> cs = {})"



section \<open>The analytics constants (constants/analytics\_events.js)\<close>

text \<open>
  The module imports \<^verbatim>\<open>core/analytics/event_taxonomy.json\<close>, which is not among the sources
  and is taken as a parameter: any JSON value. An object lists its properties in the order
  \<^verbatim>\<open>Object.keys\<close> enumerates them, each key once. \<^verbatim>\<open>String.prototype.toUpperCase\<close> belongs to the
  runtime and is a parameter as well.
\<close>

fun digits :: "nat \<Rightarrow> string" where
  "digits n = (if n < 10 then [''0123456789'' ! n] else digits (n div 10) @ [''0123456789'' ! (n mod 10)])"

declare digits.simps [simp del]

text \<open>\<^verbatim>\<open>Object.keys(v)\<close> for a value that is neither \<^verbatim>\<open>null\<close> nor \<^verbatim>\<open>undefined\<close>: the keys of an
  object, the indices of an array or a string, nothing for a number or a boolean.\<close>

fun object_keys :: "json \<Rightarrow> string list" where
  "object_keys (JObj kvs) = map fst kvs"
| "object_keys (JArr xs) = map digits [0..<length xs]"
| "object_keys (JStr s) = map digits [0..<length s]"
| "object_keys _ = []"

text \<open>\<^verbatim>\<open>a || {}\<close> and \<^verbatim>\<open>a || b\<close> in general.\<close>

definition or_else :: "json option \<Rightarrow> json \<Rightarrow> json" where
  "or_else a b = (case a of None \<Rightarrow> b | Some v \<Rightarrow> if truthy (Some v) then v else b)"

definition canonicalEventNames :: "json \<Rightarrow> string list" where
  "canonicalEventNames eventTaxonomy = object_keys (or_else (get_prop eventTaxonomy ''events'') (JObj []))"

definition analyticsEvents :: "(string \<Rightarrow> string) \<Rightarrow> json \<Rightarrow> (string \<rightharpoonup> string)" where
  "analyticsEvents toUpperCase eventTaxonomy =
     foldl (\<lambda>events eventName. events(toUpperCase eventName \<mapsto> eventName))
       Map.empty (canonicalEventNames eventTaxonomy)"

record analytics_exports =
  ANALYTICS_EVENT_TAXONOMY :: json
  ANALYTICS_EVENT_NAMES :: "string list"
  ANALYTICS_EVENTS :: "string \<rightharpoonup> string"
  DEPRECATED_ANALYTICS_EVENT_ALIASES :: json

text \<open>The module's exports; \<open>None\<close> when evaluating the module throws, which it does on a
  taxonomy that is \<^verbatim>\<open>null\<close> (the read of \<^verbatim>\<open>eventTaxonomy.events\<close>).\<close>

definition analytics_events_module :: "(string \<Rightarrow> string) \<Rightarrow> json \<Rightarrow> analytics_exports option" where
  "analytics_events_module toUpperCase eventTaxonomy =
     (if eventTaxonomy = JNull then None
      else Some \<lparr>ANALYTICS_EVENT_TAXONOMY = eventTaxonomy,
                 ANALYTICS_EVENT_NAMES = canonicalEventNames eventTaxonomy,
                 ANALYTICS_EVENTS = analyticsEvents toUpperCase eventTaxonomy,
                 DEPRECATED_ANALYTICS_EVENT_ALIASES =
                   or_else (get_prop eventTaxonomy ''deprecated_aliases'') (JObj [])\<rparr>)"

text \<open>Upper case on the ASCII letters, where \<^verbatim>\<open>toUpperCase\<close> is this function.\<close>

definition ascii_upper :: "string \<Rightarrow> string" where
  "ascii_upper s =
     map (\<lambda>c. case map_of (zip ''abcdefghijklmnopqrstuvwxyz'' ''ABCDEFGHIJKLMNOPQRSTUVWXYZ'') c of
                Some u \<Rightarrow> u
              | None \<Rightarrow> c) s"

text \<open>The events of the documented taxonomy (docs/event-taxonomy.md, v1), and a taxonomy with two
  names that differ in case only.\<close>

definition taxonomy_v1 :: json where
  "taxonomy_v1 = JObj
     [(''events'', JObj (map (\<lambda>n. (n, JObj []))
        [''site_visited'', ''signup_completed'', ''project_created'', ''project_deleted'',
         ''first_title_generated'', ''first_post_generated'', ''first_publish_attempt'',
         ''pricing_cta_clicked'', ''checkout_started'', ''checkout_completed'',
         ''checkout_failed'', ''subscription_created'', ''subscription_upgraded'',
         ''subscription_cancelled'', ''subscription_deleted''])),
      (''deprecated_aliases'', JObj [(''user_signed_up'', JStr ''signup_completed'')])]"

definition taxonomy_mixed_case :: json where
  "taxonomy_mixed_case = JObj [(''events'', JObj [(''checkout'', JObj []), (''Checkout'', JObj [])])]"


section \<open>What the two generate-content controllers share\<close>

text \<open>
  Of the HTML a controller writes into a target only its kind is kept, with the values
  interpolated into it.
\<close>

datatype button_ui =
    ServerRendered
  | GeneratingButton
  | ContinuingButton
  | ViewPostLink nat "json option"
  | GenerateButton
  | ContinueButton "json option"

datatype status_ui =
    StatusServerRendered
  | StatusGenerating
  | StatusElapsed nat nat
  | StatusGenerated
  | StatusReady

datatype post_button = PostButton | SetupLink | ProOnlyLink

text \<open>The Stimulus values \<^verbatim>\<open>suggestionId\<close> and \<^verbatim>\<open>projectId\<close>, which the pipeline controller
  declares too.\<close>

record stimulus_values = browser +
  suggestionIdValue :: nat
  projectIdValue :: nat

record content_ui = stimulus_values +
  hasStatusTarget :: bool
  buttonContainer :: button_ui
  statusTarget :: status_ui
  postButtonContainer :: "(post_button \<times> json option) option"

text \<open>The runtime's functions the controllers call, as parameters: \<^verbatim>\<open>JSON.parse\<close> (\<open>None\<close> when
  it throws), \<^verbatim>\<open>JSON.stringify\<close>, and the conversion to a number of a string, an array or an
  object (\<open>None\<close> is \<^verbatim>\<open>NaN\<close>).\<close>

record runtime =
  JSON_parse :: "string \<Rightarrow> json option"
  JSON_stringify :: "json \<Rightarrow> string"
  ToNumber_other :: "json \<Rightarrow> int option"

fun ToNumber :: "runtime \<Rightarrow> json option \<Rightarrow> int option" where
  "ToNumber rt None = None"
| "ToNumber rt (Some JNull) = Some 0"
| "ToNumber rt (Some (JBool b)) = Some (if b then 1 else 0)"
| "ToNumber rt (Some (JNum n)) = Some n"
| "ToNumber rt (Some v) = ToNumber_other rt v"

text \<open>Whether \<^verbatim>\<open>String(v)\<close> is the empty string. \<^verbatim>\<open>Array.prototype.join\<close> writes \<^verbatim>\<open>null\<close> as
  nothing and puts a comma between two elements.\<close>

fun renders_empty :: "json \<Rightarrow> bool" where
  "renders_empty (JStr s) = (s = [])"
| "renders_empty (JArr []) = True"
| "renders_empty (JArr [x]) = (x = JNull \<or> renders_empty x)"
| "renders_empty _ = False"

text \<open>\<^verbatim>\<open>new Error(v || d).message\<close>, and \<^verbatim>\<open>error.message || d\<close> for the text to show.\<close>

definition error_text :: "json option \<Rightarrow> string \<Rightarrow> shown_text" where
  "error_text v d = (if truthy v then Dyn v else Lit d)"

fun is_empty_text :: "shown_text \<Rightarrow> bool" where
  "is_empty_text (Lit s) = (s = [])"
| "is_empty_text (Dyn (Some v)) = renders_empty v"
| "is_empty_text (Dyn None) = False"
| "is_empty_text RuntimeError = False"

definition or_text :: "shown_text \<Rightarrow> string \<Rightarrow> shown_text" where
  "or_text t d = (if is_empty_text t then Lit d else t)"

definition showMessage :: "shown_text \<Rightarrow> level \<Rightarrow> 'a browser_scheme \<Rightarrow> 'a browser_scheme" where
  "showMessage t l b = emit (ShowMessage l t) b"

definition taskKey :: "nat \<Rightarrow> string" where
  "taskKey suggestionId = ''blog_generation_task_'' @ digits suggestionId"

text \<open>\<^verbatim>\<open>raw ? JSON.parse(raw) : {}\<close>; \<open>None\<close> when \<^verbatim>\<open>JSON.parse\<close> throws.\<close>

definition read_settings :: "runtime \<Rightarrow> string option \<Rightarrow> json option" where
  "read_settings rt raw =
     (case raw of
        None \<Rightarrow> Some (JObj [])
      | Some s \<Rightarrow> if s = [] then Some (JObj []) else JSON_parse rt s)"

text \<open>\<^verbatim>\<open>_appendPostButton(container, generatedPostId)\<close>, the same in both controllers. The
  container is emptied first; then a setting that does not parse, or that parses to
  \<^verbatim>\<open>null\<close>, throws. The result says whether it threw.\<close>

definition appendPostButton ::
  "runtime \<Rightarrow> json option \<Rightarrow> 'a content_ui_scheme \<Rightarrow> shown_text option \<times> 'a content_ui_scheme" where
  "appendPostButton rt generatedPostId st =
     (let st1 = st\<lparr>postButtonContainer := None\<rparr> in
      case read_settings rt (localStorage st ''userProfileSettings'') of
        None \<Rightarrow> (Some RuntimeError, st1)
      | Some profileSettings \<Rightarrow>
          (case read_settings rt (localStorage st (''projectSettings:'' @ digits (projectIdValue st))) of
             None \<Rightarrow> (Some RuntimeError, st1)
           | Some projectSettings \<Rightarrow>
               if profileSettings = JNull \<or> projectSettings = JNull then (Some RuntimeError, st1)
               else
                 let hasPro = truthy (get_prop profileSettings ''has_pro_subscription'');
                     hasAutoSubmit = truthy (get_prop projectSettings ''has_auto_submission_setting'')
                 in (None, st1\<lparr>postButtonContainer :=
                              Some (if hasPro \<and> hasAutoSubmit then PostButton
                                    else if hasPro \<and> \<not> hasAutoSubmit then SetupLink
                                    else ProOnlyLink, generatedPostId)\<rparr>)))"


section \<open>The generate-content controller that polls a task (unnamed/part\_006)\<close>

record task_controller = content_ui +
  pollingTimeoutId :: bool

definition show_generating :: "'a content_ui_scheme \<Rightarrow> 'a content_ui_scheme" where
  "show_generating st =
     st\<lparr>buttonContainer := GeneratingButton,
        statusTarget := (if hasStatusTarget st then StatusGenerating else statusTarget st)\<rparr>"

definition removeItem :: "string \<Rightarrow> 'a browser_scheme \<Rightarrow> 'a browser_scheme" where
  "removeItem k b = b\<lparr>localStorage := (localStorage b)(k := None)\<rparr>"

definition setItem :: "string \<Rightarrow> string \<Rightarrow> 'a browser_scheme \<Rightarrow> 'a browser_scheme" where
  "setItem k v b = b\<lparr>localStorage := (localStorage b)(k \<mapsto> v)\<rparr>"

text \<open>\<^verbatim>\<open>_updateToCompletedState(blogPostId)\<close>; the result says whether \<^verbatim>\<open>_appendPostButton\<close>
  threw, in which case the success message is not reached.\<close>

definition updateToCompletedState ::
  "runtime \<Rightarrow> json option \<Rightarrow> task_controller \<Rightarrow> shown_text option \<times> task_controller" where
  "updateToCompletedState rt blogPostId st =
     (let st1 = removeItem (taskKey (suggestionIdValue st)) st;
          st2 = st1\<lparr>buttonContainer := ViewPostLink (projectIdValue st1) blogPostId,
                    statusTarget := (if hasStatusTarget st1 then StatusGenerated else statusTarget st1)\<rparr>
      in case appendPostButton rt blogPostId st2 of
           (Some e, st3) \<Rightarrow> (Some e, st3)
         | (None, st3) \<Rightarrow> (None, showMessage (Lit ''Content generated successfully!'') Success st3))"

definition resetToInitialState :: "task_controller \<Rightarrow> task_controller" where
  "resetToInitialState st =
     (let st1 = removeItem (taskKey (suggestionIdValue st)) st
      in st1\<lparr>buttonContainer := GenerateButton,
             statusTarget := (if hasStatusTarget st1 then StatusReady else statusTarget st1)\<rparr>)"

definition pollInterval :: nat where "pollInterval = 3000"
definition initialDelay :: nat where "initialDelay = 2000"
definition maxAttempts :: nat where "maxAttempts = 100"

text \<open>The \<^verbatim>\<open>catch\<close> block of \<^verbatim>\<open>poll\<close>.\<close>

definition poll_caught :: "shown_text \<Rightarrow> task_controller \<Rightarrow> task_controller" where
  "poll_caught e st =
     resetToInitialState (showMessage (or_text e ''Failed to check generation status'') Failure st)"

definition show_elapsed :: "nat \<Rightarrow> task_controller \<Rightarrow> task_controller" where
  "show_elapsed attempts st =
     (if hasStatusTarget st
      then st\<lparr>statusTarget := StatusElapsed ((attempts * pollInterval) div 60000)
                                            (((attempts * pollInterval) mod 60000) div 1000)\<rparr>
      else st)"

text \<open>The closure \<^verbatim>\<open>poll\<close> of \<^verbatim>\<open>_pollTaskStatus(taskId)\<close>, with the counter \<^verbatim>\<open>attempts\<close> it
  captures as an argument: its value before the call. Scheduling the next poll is the
  recursive call, after the \<open>SetTimeout\<close> event.\<close>

function poll :: "runtime \<Rightarrow> server \<Rightarrow> json option \<Rightarrow> nat \<Rightarrow> task_controller \<Rightarrow> task_controller" where
  "poll rt srv taskId attempts0 st =
     (let attempts = attempts0 + 1;
          (resp, st1) = fetch srv (TaskStatus taskId) st
      in case resp of
           NetworkError \<Rightarrow> poll_caught RuntimeError st1
         | Response ok body \<Rightarrow>
             if \<not> ok then poll_caught (Lit ''Failed to check task status'') st1
             else (case body of
                     None \<Rightarrow> poll_caught RuntimeError st1
                   | Some JNull \<Rightarrow> poll_caught RuntimeError st1
                   | Some statusData \<Rightarrow>
                       if get_prop statusData ''status'' = Some (JStr ''completed'') then
                         (case updateToCompletedState rt (get_prop statusData ''blog_post_id'') st1 of
                            (Some e, st2) \<Rightarrow> poll_caught e st2
                          | (None, st2) \<Rightarrow> st2)
                       else if get_prop statusData ''status'' = Some (JStr ''failed'') then
                         poll_caught (error_text (get_prop statusData ''message'') ''Content generation failed'') st1
                       else if get_prop statusData ''status'' = Some (JStr ''processing'') then
                         (if attempts \<ge> maxAttempts then
                            poll_caught (Lit ''Content generation is taking longer than expected. Please refresh the page to check status.'') st1
                          else
                            poll rt srv taskId attempts
                              (emit (SetTimeout pollInterval) (show_elapsed attempts st1)\<lparr>pollingTimeoutId := True\<rparr>))
                       else if get_prop statusData ''status'' = Some (JStr ''error'') then
                         poll_caught (error_text (get_prop statusData ''message'')
                                        ''Content generation encountered an error'') st1
                       else st1))"
  by pat_completeness auto
termination
  by (relation "measure (\<lambda>(rt, srv, taskId, attempts0, st). maxAttempts - attempts0)") auto

declare poll.simps [simp del]

definition pollTaskStatus :: "runtime \<Rightarrow> server \<Rightarrow> json option \<Rightarrow> task_controller \<Rightarrow> task_controller" where
  "pollTaskStatus rt srv taskId st =
     poll rt srv taskId 0 (emit (SetTimeout initialDelay) st\<lparr>pollingTimeoutId := True\<rparr>)"

definition generate_caught :: "shown_text \<Rightarrow> task_controller \<Rightarrow> task_controller" where
  "generate_caught e st =
     resetToInitialState
       (showMessage (or_text e ''Failed to generate content. Please try again later.'') Failure st)"

text \<open>\<^verbatim>\<open>generate(event)\<close>, with the value of \<^verbatim>\<open>Date.now()\<close> as \<open>now\<close>. A response that is not ok
  and a response that is ok both read the body first; a body that is not JSON or is
  \<^verbatim>\<open>null\<close> throws in either case.\<close>

definition generate_task :: "runtime \<Rightarrow> int \<Rightarrow> server \<Rightarrow> task_controller \<Rightarrow> task_controller" where
  "generate_task rt now srv st =
     (let (resp, st1) = fetch srv (GenerateBlogContent (suggestionIdValue st)) (show_generating st)
      in case resp of
           NetworkError \<Rightarrow> generate_caught RuntimeError st1
         | Response ok body \<Rightarrow>
             (case body of
                None \<Rightarrow> generate_caught RuntimeError st1
              | Some JNull \<Rightarrow> generate_caught RuntimeError st1
              | Some data \<Rightarrow>
                  if \<not> ok then
                    generate_caught (error_text (get_prop data ''message'') ''Generation failed'') st1
                  else if get_prop data ''status'' = Some (JStr ''error'') then
                    generate_caught (error_text (get_prop data ''message'') ''Generation failed'') st1
                  else
                    (case get_prop data ''task_id'' of
                       None \<Rightarrow> generate_caught (Lit ''Unexpected response status'') st1
                     | Some task_id \<Rightarrow>
                         if get_prop data ''status'' = Some (JStr ''processing'') \<and> truthy (Some task_id) then
                           pollTaskStatus rt srv (Some task_id)
                             (showMessage (Lit ''Blog post generation started! We're doing extensive research which can take several minutes. We'll send you an email once it's ready.'') Success
                                (setItem (taskKey (suggestionIdValue st1))
                                   (JSON_stringify rt (JObj [(''taskId'', task_id), (''startTime'', JNum now)])) st1))
                         else generate_caught (Lit ''Unexpected response status'') st1)))"

text \<open>\<^verbatim>\<open>elapsedMinutes < 10\<close> for \<^verbatim>\<open>elapsedMinutes = (Date.now() - startTime) / 1000 / 60\<close>; the
  comparison is false on \<^verbatim>\<open>NaN\<close>.\<close>

definition elapsedMinutes :: "int \<Rightarrow> int \<Rightarrow> rat" where
  "elapsedMinutes now startTime = of_int (now - startTime) / 1000 / 60"

definition started_recently :: "int \<Rightarrow> int option \<Rightarrow> bool" where
  "started_recently now startTime =
     (case startTime of None \<Rightarrow> False | Some t \<Rightarrow> elapsedMinutes now t < 10)"

text \<open>\<^verbatim>\<open>_checkForOngoingTask()\<close>. Destructuring \<^verbatim>\<open>null\<close> throws; destructuring any other value
  reads the two properties.\<close>

definition checkForOngoingTask :: "runtime \<Rightarrow> int \<Rightarrow> server \<Rightarrow> task_controller \<Rightarrow> task_controller" where
  "checkForOngoingTask rt now srv st =
     (case localStorage st (taskKey (suggestionIdValue st)) of
        None \<Rightarrow> st
      | Some taskData \<Rightarrow>
          if taskData = [] then st
          else (case JSON_parse rt taskData of
                  None \<Rightarrow> removeItem (taskKey (suggestionIdValue st)) st
                | Some JNull \<Rightarrow> removeItem (taskKey (suggestionIdValue st)) st
                | Some parsed \<Rightarrow>
                    if started_recently now (ToNumber rt (get_prop parsed ''startTime''))
                    then pollTaskStatus rt srv (get_prop parsed ''taskId'') (show_generating st)
                    else removeItem (taskKey (suggestionIdValue st)) st))"

definition connect_task :: "runtime \<Rightarrow> int \<Rightarrow> server \<Rightarrow> task_controller \<Rightarrow> task_controller" where
  "connect_task rt now srv st = checkForOngoingTask rt now srv (st\<lparr>pollingTimeoutId := False\<rparr>)"


section \<open>The generate-content controller that runs the pipeline (controllers/generate-content-controller.js)\<close>

datatype step_mark = NotStarted | Spinner | Check | Cross

text \<open>The progress dialog: \<open>None\<close> when there is none in the document, else its rows by their
  \<^verbatim>\<open>data-step\<close>, each with its icon and its text.\<close>

record generate_content = content_ui +
  blogPostId :: "json option"
  pipelineSteps :: "string list"
  progressDialog :: "(string \<rightharpoonup> step_mark \<times> shown_text) option"

definition the_pipeline_steps :: "string list" where
  "the_pipeline_steps =
     [''structure'', ''content'', ''preliminary_validation'', ''internal_links'', ''final_validation'']"

definition step_display_names :: "string \<rightharpoonup> string" where
  "step_display_names = map_of
     [(''structure'', ''Generating Structure''),
      (''content'', ''Generating Content''),
      (''preliminary_validation'', ''Validating Content''),
      (''internal_links'', ''Adding Internal Links''),
      (''final_validation'', ''Final Validation'')]"

definition backend_step_names :: "string \<rightharpoonup> string" where
  "backend_step_names = map_of
     [(''structure'', ''generate_structure''),
      (''content'', ''generate_content''),
      (''preliminary_validation'', ''preliminary_validation''),
      (''internal_links'', ''insert_internal_links''),
      (''final_validation'', ''final_validation'')]"

definition step_name_map :: "string \<rightharpoonup> string" where
  "step_name_map = map_of
     [(''generate_structure'', ''structure''),
      (''generate_content'', ''content''),
      (''preliminary_validation'', ''preliminary_validation''),
      (''insert_internal_links'', ''internal_links''),
      (''final_validation'', ''final_validation'')]"

text \<open>The names every object literal inherits from \<^verbatim>\<open>Object.prototype\<close>: under them
  \<^verbatim>\<open>step_name_map[name]\<close> is a function or an object, which is truthy and names no row.\<close>

definition object_prototype_names :: "string list" where
  "object_prototype_names =
     [''constructor'', ''hasOwnProperty'', ''isPrototypeOf'', ''propertyIsEnumerable'',
      ''toLocaleString'', ''toString'', ''valueOf'', ''__proto__'', ''__defineGetter__'',
      ''__defineSetter__'', ''__lookupGetter__'', ''__lookupSetter__'']"

definition display_text :: "string \<Rightarrow> shown_text" where
  "display_text step_name = (case step_display_names step_name of Some d \<Rightarrow> Lit d | None \<Rightarrow> Dyn None)"

definition getStepDisplayName :: "string \<Rightarrow> string" where
  "getStepDisplayName step_name =
     (case step_display_names step_name of Some d \<Rightarrow> if d = [] then step_name else d | None \<Rightarrow> step_name)"

definition getBackendStepName :: "string \<Rightarrow> string" where
  "getBackendStepName frontend_step_name =
     (case backend_step_names frontend_step_name of
        Some b \<Rightarrow> if b = [] then frontend_step_name else b
      | None \<Rightarrow> frontend_step_name)"

text \<open>Optional chaining \<^verbatim>\<open>a?.[k]\<close>.\<close>

fun opt_prop :: "json option \<Rightarrow> string \<Rightarrow> json option" where
  "opt_prop None k = None"
| "opt_prop (Some JNull) k = None"
| "opt_prop (Some v) k = get_prop v k"

definition showProgressDialog :: "generate_content \<Rightarrow> generate_content" where
  "showProgressDialog st =
     st\<lparr>progressDialog := Some (map_of (map (\<lambda>s. (s, (NotStarted, display_text s))) the_pipeline_steps))\<rparr>"

definition hideProgressDialog :: "generate_content \<Rightarrow> generate_content" where
  "hideProgressDialog st = st\<lparr>progressDialog := None\<rparr>"

definition updateProgressStep :: "string \<Rightarrow> step_mark \<Rightarrow> shown_text \<Rightarrow> generate_content \<Rightarrow> generate_content" where
  "updateProgressStep step_name mark shown st =
     (case progressDialog st of
        None \<Rightarrow> st
      | Some rows \<Rightarrow>
          (case rows step_name of
             None \<Rightarrow> st
           | Some row \<Rightarrow> st\<lparr>progressDialog := Some (rows(step_name \<mapsto> (mark, shown)))\<rparr>))"

text \<open>\<^verbatim>\<open>_executeStep(step_name)\<close>. The result is the error it throws, if any; whatever is
  thrown inside its \<^verbatim>\<open>try\<close> is thrown again after the row is marked failed.\<close>

definition executeStep_gc :: "server \<Rightarrow> string \<Rightarrow> generate_content \<Rightarrow> shown_text option \<times> generate_content" where
  "executeStep_gc srv step_name st =
     (let (resp, st1) = fetch srv (PipelineStep (blogPostId st) step_name)
                          (updateProgressStep step_name Spinner (display_text step_name) st);
          rethrow = (\<lambda>e s. (Some e, updateProgressStep step_name Cross (display_text step_name) s))
      in case resp of
           NetworkError \<Rightarrow> rethrow RuntimeError st1
         | Response ok body \<Rightarrow>
             (case body of
                None \<Rightarrow> rethrow RuntimeError st1
              | Some JNull \<Rightarrow> rethrow RuntimeError st1
              | Some data \<Rightarrow>
                  if \<not> ok then
                    rethrow (error_text (get_prop data ''message'') (''Failed to execute '' @ step_name)) st1
                  else
                    (case opt_prop (opt_prop (get_prop data ''pipeline_state'') ''steps'')
                            (case backend_step_names step_name of Some b \<Rightarrow> b | None \<Rightarrow> ''undefined'') of
                       None \<Rightarrow> (None, updateProgressStep step_name Check (display_text step_name) st1)
                     | Some step_status \<Rightarrow>
                         if truthy (Some step_status) \<and> get_prop step_status ''status'' = Some (JStr ''failed'') then
                           rethrow (error_text (get_prop step_status ''error'') (''Step '' @ step_name @ '' failed''))
                             (updateProgressStep step_name Cross
                                (case step_display_names step_name of
                                   Some d \<Rightarrow> Lit (d @ '' Failed'')
                                 | None \<Rightarrow> Lit ''undefined Failed'') st1)
                         else (None, updateProgressStep step_name Check (display_text step_name) st1))))"

text \<open>\<^verbatim>\<open>for (const step of steps) { await this._executeStep(step); }\<close>: the first throw leaves the
  loop.\<close>

fun execute_steps :: "server \<Rightarrow> string list \<Rightarrow> generate_content \<Rightarrow> shown_text option \<times> generate_content" where
  "execute_steps srv [] st = (None, st)"
| "execute_steps srv (step # rest) st =
     (case executeStep_gc srv step st of
        (Some e, st1) \<Rightarrow> (Some e, st1)
      | (None, st1) \<Rightarrow> execute_steps srv rest st1)"

text \<open>What both handlers do once every step is through: the tail of their \<^verbatim>\<open>try\<close> block, with
  the message each shows last. \<^verbatim>\<open>_appendPostButton\<close> may throw into the handler's \<^verbatim>\<open>catch\<close>.\<close>

definition show_generated :: "runtime \<Rightarrow> string \<Rightarrow> generate_content \<Rightarrow> shown_text option \<times> generate_content" where
  "show_generated rt done_message st =
     (let st1 = hideProgressDialog st;
          st2 = st1\<lparr>buttonContainer := ViewPostLink (projectIdValue st1) (blogPostId st1),
                    statusTarget := (if hasStatusTarget st1 then StatusGenerated else statusTarget st1)\<rparr>
      in case appendPostButton rt (blogPostId st2) st2 of
           (Some e, st3) \<Rightarrow> (Some e, st3)
         | (None, st3) \<Rightarrow> (None, showMessage (Lit done_message) Success st3))"

definition generate_caught_gc :: "shown_text \<Rightarrow> generate_content \<Rightarrow> generate_content" where
  "generate_caught_gc e st =
     (let st1 = showMessage (or_text e ''Failed to generate content. Please try again later.'') Failure
                  (hideProgressDialog st)
      in st1\<lparr>buttonContainer := GenerateButton,
             statusTarget := (if hasStatusTarget st1 then StatusReady else statusTarget st1)\<rparr>)"


text \<open>\<^verbatim>\<open>Object.entries(v)\<close> for a truthy value.\<close>

fun object_entries :: "json \<Rightarrow> (string \<times> json) list" where
  "object_entries (JObj kvs) = kvs"
| "object_entries (JArr xs) = zip (map digits [0..<length xs]) xs"
| "object_entries (JStr s) = zip (map digits [0..<length s]) (map (\<lambda>c. JStr [c]) s)"
| "object_entries _ = []"

text \<open>The loop of \<^verbatim>\<open>continue\<close> that ticks the rows of the steps the backend reports completed.
  \<open>None\<close> when it throws: \<^verbatim>\<open>step_info.status\<close> is read whenever \<^verbatim>\<open>step_name_map\<close> has anything
  under the entry's name, and the read throws on \<^verbatim>\<open>null\<close>.\<close>

fun tick_completed :: "(string \<times> json) list \<Rightarrow> generate_content \<Rightarrow> generate_content option" where
  "tick_completed [] st = Some st"
| "tick_completed ((backend_step_name, step_info) # rest) st =
     (case step_name_map backend_step_name of
        Some frontend_step_name \<Rightarrow>
          if step_info = JNull then None
          else if get_prop step_info ''status'' = Some (JStr ''completed'')
          then tick_completed rest
                 (updateProgressStep frontend_step_name Check (Lit (getStepDisplayName frontend_step_name)) st)
          else tick_completed rest st
      | None \<Rightarrow>
          if backend_step_name \<in> set object_prototype_names \<and> step_info = JNull then None
          else tick_completed rest st)"

text \<open>\<^verbatim>\<open>if (statusData.steps) { for (... of Object.entries(statusData.steps)) ... }\<close>.\<close>

definition tick_from_status :: "json \<Rightarrow> generate_content \<Rightarrow> generate_content option" where
  "tick_from_status statusData st =
     (case get_prop statusData ''steps'' of
        None \<Rightarrow> Some st
      | Some recorded \<Rightarrow>
          if truthy (Some recorded) then tick_completed (object_entries recorded) st else Some st)"

text \<open>The test that puts a step on \<^verbatim>\<open>steps_to_execute\<close>:
  \<^verbatim>\<open>!step_status || step_status.status !== "completed"\<close> for
  \<^verbatim>\<open>step_status = statusData.steps?.[backend_step]\<close>.\<close>

definition not_completed :: "json \<Rightarrow> string \<Rightarrow> bool" where
  "not_completed statusData frontend_step =
     (case opt_prop (get_prop statusData ''steps'') (getBackendStepName frontend_step) of
        None \<Rightarrow> True
      | Some step_status \<Rightarrow>
          \<not> truthy (Some step_status) \<or> get_prop step_status ''status'' \<noteq> Some (JStr ''completed''))"

definition steps_to_execute :: "json \<Rightarrow> string list" where
  "steps_to_execute statusData = filter (not_completed statusData) the_pipeline_steps"

definition continue_caught :: "shown_text \<Rightarrow> generate_content \<Rightarrow> generate_content" where
  "continue_caught e st =
     (let st1 = showMessage (or_text e ''Failed to continue generation. Please try again later.'') Failure
                  (hideProgressDialog st)
      in st1\<lparr>buttonContainer := ContinueButton (blogPostId st1)\<rparr>)"

text \<open>\<^verbatim>\<open>continue(event)\<close>, with the post id of the button's data attribute as \<open>blog_post_id\<close>.\<close>

definition continue_gc :: "runtime \<Rightarrow> server \<Rightarrow> int \<Rightarrow> generate_content \<Rightarrow> generate_content" where
  "continue_gc rt srv blog_post_id st =
     (let (resp, st1) = fetch srv (PipelineStatus (Some (JNum blog_post_id)))
                          (showProgressDialog
                             (st\<lparr>blogPostId := Some (JNum blog_post_id), buttonContainer := ContinuingButton\<rparr>))
      in case resp of
           NetworkError \<Rightarrow> continue_caught RuntimeError st1
         | Response ok body \<Rightarrow>
             if \<not> ok then continue_caught (Lit ''Failed to get pipeline status'') st1
             else
               (case body of
                  None \<Rightarrow> continue_caught RuntimeError st1
                | Some JNull \<Rightarrow> continue_caught RuntimeError st1
                | Some statusData \<Rightarrow>
                    (case tick_from_status statusData st1 of
                       None \<Rightarrow> continue_caught RuntimeError st1
                     | Some st2 \<Rightarrow>
                         (case execute_steps srv (steps_to_execute statusData)
                                 (st2\<lparr>pipelineSteps := the_pipeline_steps\<rparr>) of
                            (Some e, st3) \<Rightarrow> continue_caught e st3
                          | (None, st3) \<Rightarrow>
                              (case show_generated rt ''Blog post generation completed!'' st3 of
                                 (Some e, st4) \<Rightarrow> continue_caught e st4
                               | (None, st4) \<Rightarrow> st4)))))"


section \<open>The blog-generation-pipeline controller (unnamed/part\_007)\<close>

text \<open>
  \<^verbatim>\<open>connect()\<close> sets \<^verbatim>\<open>maxRetries\<close> and \<^verbatim>\<open>stepNames\<close> and nothing assigns them again: they are
  constants here. The targets the code reads without asking for them first (the steps
  list, the CSRF input) are there. The controller's own \<^verbatim>\<open>blogPostId\<close> and \<^verbatim>\<open>currentStep\<close>
  carry a suffix, the names being taken.
\<close>

definition maxRetries :: nat where
  "maxRetries = 3"

definition stepNames :: "(string \<times> string) list" where
  "stepNames =
     [(''structure'', ''Generate Structure''),
      (''content'', ''Generate Content''),
      (''preliminary_validation'', ''Preliminary Validation''),
      (''internal_links'', ''Insert Internal Links''),
      (''final_validation'', ''Final Validation'')]"

datatype step_row = Pending | InProgress | Completed | Failed

text \<open>What \<^verbatim>\<open>showError\<close> is given: a plain text, or one of the two step messages with the
  values interpolated into it.\<close>

datatype error_shown =
    ErrorText shown_text
  | StepFailedAfterAttempts string nat "json option"
  | StepFailed string shown_text

text \<open>The retry button as \<^verbatim>\<open>showRetryOption\<close> writes it: its \<^verbatim>\<open>data-step-key\<close>, its
  \<^verbatim>\<open>data-step-index\<close> and the number of attempts it says are left.\<close>

record blog_generation_pipeline = stimulus_values +
  blogPostId_p :: "json option"
  currentStep_p :: "string option"
  retryCount :: "string \<rightharpoonup> nat"
  hasDialogTarget :: bool
  hasProgressBarTarget :: bool
  hasErrorMessageTarget :: bool
  hasRetryButtonTarget :: bool
  hasCloseButtonTarget :: bool
  dialogHidden :: bool
  steps :: "step_row list"
  progressBar :: rat
  errorMessage :: "error_shown option"
  errorMessageHidden :: bool
  retryButton :: "(string \<times> nat \<times> int) option"
  retryButtonHidden :: bool
  closeButton :: "(nat \<times> json option) option"
  closeButtonHidden :: bool

definition connect_pipeline :: "blog_generation_pipeline \<Rightarrow> blog_generation_pipeline" where
  "connect_pipeline st = st\<lparr>blogPostId_p := Some JNull, currentStep_p := None, retryCount := Map.empty\<rparr>"

definition renderSteps :: "blog_generation_pipeline \<Rightarrow> blog_generation_pipeline" where
  "renderSteps st = st\<lparr>steps := map (\<lambda>step. Pending) stepNames\<rparr>"

text \<open>\<^verbatim>\<open>updateStepStatus(stepIndex, status)\<close> returns when there is no row of that index.\<close>

definition updateStepStatus :: "nat \<Rightarrow> step_row \<Rightarrow> blog_generation_pipeline \<Rightarrow> blog_generation_pipeline" where
  "updateStepStatus stepIndex row st =
     (if stepIndex < length (steps st) then st\<lparr>steps := (steps st)[stepIndex := row]\<rparr> else st)"

definition updateProgress :: "rat \<Rightarrow> blog_generation_pipeline \<Rightarrow> blog_generation_pipeline" where
  "updateProgress percentage st = (if hasProgressBarTarget st then st\<lparr>progressBar := percentage\<rparr> else st)"

definition showError :: "error_shown \<Rightarrow> blog_generation_pipeline \<Rightarrow> blog_generation_pipeline" where
  "showError message st =
     (if hasErrorMessageTarget st then st\<lparr>errorMessage := Some message, errorMessageHidden := False\<rparr> else st)"

definition hideError :: "blog_generation_pipeline \<Rightarrow> blog_generation_pipeline" where
  "hideError st = (if hasErrorMessageTarget st then st\<lparr>errorMessageHidden := True\<rparr> else st)"

text \<open>\<^verbatim>\<open>this.retryCount[key] || 0\<close>.\<close>

definition retries :: "blog_generation_pipeline \<Rightarrow> string \<Rightarrow> nat" where
  "retries st k = (case retryCount st k of None \<Rightarrow> 0 | Some c \<Rightarrow> c)"

definition showRetryOption :: "string \<times> string \<Rightarrow> nat \<Rightarrow> blog_generation_pipeline \<Rightarrow> blog_generation_pipeline" where
  "showRetryOption step stepIndex st =
     (if hasRetryButtonTarget st
      then st\<lparr>retryButton := Some (fst step, stepIndex, int maxRetries - int (retries st (fst step))),
              retryButtonHidden := False\<rparr>
      else st)"

definition onPipelineComplete :: "blog_generation_pipeline \<Rightarrow> blog_generation_pipeline" where
  "onPipelineComplete st =
     updateProgress 100
       (showMessage (Lit ''Blog post generated successfully!'') Success
          (if hasCloseButtonTarget st
           then st\<lparr>closeButtonHidden := False, closeButton := Some (projectIdValue st, blogPostId_p st)\<rparr>
           else st))"

text \<open>\<^verbatim>\<open>executeStep(step, stepIndex)\<close>; the result is the boolean it returns. The response's
  \<^verbatim>\<open>ok\<close> flag is not looked at.\<close>

definition executeStep ::
  "server \<Rightarrow> string \<times> string \<Rightarrow> nat \<Rightarrow> blog_generation_pipeline \<Rightarrow> bool \<times> blog_generation_pipeline" where
  "executeStep srv step stepIndex st =
     (let (resp, st1) = fetch srv (PipelineStep (blogPostId_p st) (fst step))
                          (updateStepStatus stepIndex InProgress st);
          caught = (\<lambda>e. (False, showError (StepFailed (snd step) e) (updateStepStatus stepIndex Failed st1)))
      in case resp of
           NetworkError \<Rightarrow> caught RuntimeError
         | Response ok body \<Rightarrow>
             (case body of
                None \<Rightarrow> caught RuntimeError
              | Some JNull \<Rightarrow> caught RuntimeError
              | Some data \<Rightarrow>
                  if get_prop data ''status'' = Some (JStr ''error'') then
                    (let st2 = updateStepStatus stepIndex Failed st1 in
                     if retries st2 (fst step) < maxRetries
                     then (False, showRetryOption step stepIndex st2)
                     else (False, showError (StepFailedAfterAttempts (snd step) maxRetries
                                               (get_prop data ''message'')) st2))
                  else
                    (True, updateProgress ((of_nat (stepIndex + 1) / of_nat (length stepNames)) * 100)
                             (updateStepStatus stepIndex Completed st1))))"

text \<open>The loop of \<^verbatim>\<open>startPipeline\<close> over the steps from index \<open>i\<close> on; \<^verbatim>\<open>break\<close> leaves it at the
  first step that returns false.\<close>

fun start_loop ::
  "server \<Rightarrow> nat \<Rightarrow> (string \<times> string) list \<Rightarrow> blog_generation_pipeline \<Rightarrow> blog_generation_pipeline" where
  "start_loop srv i [] st = st"
| "start_loop srv i (step # rest) st =
     (case executeStep srv step i (st\<lparr>currentStep_p := Some (fst step)\<rparr>) of
        (True, st1) \<Rightarrow> start_loop srv (Suc i) rest st1
      | (False, st1) \<Rightarrow> st1)"

definition start_caught :: "shown_text \<Rightarrow> blog_generation_pipeline \<Rightarrow> blog_generation_pipeline" where
  "start_caught e st = showError (ErrorText (or_text e ''Failed to start pipeline'')) st"

text \<open>\<^verbatim>\<open>startPipeline(event)\<close>.\<close>

definition startPipeline :: "server \<Rightarrow> blog_generation_pipeline \<Rightarrow> blog_generation_pipeline" where
  "startPipeline srv st =
     (let (resp, st1) = fetch srv (PipelineStart (suggestionIdValue st))
                          (updateProgress 0
                             (renderSteps (if hasDialogTarget st then st\<lparr>dialogHidden := False\<rparr> else st)))
      in case resp of
           NetworkError \<Rightarrow> start_caught RuntimeError st1
         | Response ok body \<Rightarrow>
             (case body of
                None \<Rightarrow> start_caught RuntimeError st1
              | Some JNull \<Rightarrow> start_caught RuntimeError st1
              | Some data \<Rightarrow>
                  if get_prop data ''status'' = Some (JStr ''error'') then
                    start_caught (error_text (get_prop data ''message'') ''Failed to start pipeline'') st1
                  else
                    onPipelineComplete
                      (start_loop srv 0 stepNames (st1\<lparr>blogPostId_p := get_prop data ''blog_post_id''\<rparr>))))"

text \<open>The loop of \<^verbatim>\<open>retryStep\<close> over the steps after the one retried.\<close>

fun retry_loop ::
  "server \<Rightarrow> nat \<Rightarrow> (string \<times> string) list \<Rightarrow> blog_generation_pipeline \<Rightarrow> blog_generation_pipeline" where
  "retry_loop srv i [] st = st"
| "retry_loop srv i (nextStep # rest) st =
     (case executeStep srv nextStep i st of
        (True, st1) \<Rightarrow> retry_loop srv (Suc i) rest st1
      | (False, st1) \<Rightarrow> st1)"

text \<open>\<^verbatim>\<open>retryStep(event)\<close>, with the two data attributes of the element clicked. The fetch that
  resets the step is outside any \<^verbatim>\<open>try\<close>: when it is rejected the handler ends there. Its
  response is not read. An index past the steps gives no step, and the handler ends in a
  TypeError before any step request.\<close>

definition retryStep :: "server \<Rightarrow> string \<Rightarrow> nat \<Rightarrow> blog_generation_pipeline \<Rightarrow> blog_generation_pipeline" where
  "retryStep srv stepKey stepIndex st =
     (let (resp, st1) = fetch srv (PipelineRetry (blogPostId_p st) stepKey)
                          (hideError (st\<lparr>retryCount := (retryCount st)(stepKey \<mapsto> retries st stepKey + 1)\<rparr>))
      in case resp of
           NetworkError \<Rightarrow> st1
         | Response ok body \<Rightarrow>
             if stepIndex < length stepNames then
               (case executeStep srv (stepNames ! stepIndex) stepIndex st1 of
                  (False, st2) \<Rightarrow> st2
                | (True, st2) \<Rightarrow>
                    (let st3 = retry_loop srv (stepIndex + 1) (drop (stepIndex + 1) stepNames) st2
                     in if stepIndex = length stepNames - 1 then onPipelineComplete st3 else st3))
             else st1)"

text \<open>A retry is on offer when the retry target shows a retry button. Clicking it runs
  \<^verbatim>\<open>retryStep\<close> with the button's data attributes.\<close>

definition retry_offered :: "blog_generation_pipeline \<Rightarrow> bool" where
  "retry_offered st = (hasRetryButtonTarget st \<and> \<not> retryButtonHidden st \<and> retryButton st \<noteq> None)"

definition click_retry :: "server \<Rightarrow> blog_generation_pipeline \<Rightarrow> blog_generation_pipeline" where
  "click_retry srv st =
     (case retryButton st of
        None \<Rightarrow> st
      | Some (stepKey, stepIndex, remaining) \<Rightarrow>
          if retry_offered st then retryStep srv stepKey stepIndex st else st)"

section \<open>Notions the statements use\<close>

text \<open>A status response that says the task is still processing.\<close>

definition still_processing :: "response \<Rightarrow> bool" where
  "still_processing resp =
     (case resp of
        NetworkError \<Rightarrow> False
      | Response ok body \<Rightarrow>
          ok \<and> (case body of
                  None \<Rightarrow> False
                | Some statusData \<Rightarrow> get_prop statusData ''status'' = Some (JStr ''processing'')))"

text \<open>What else a status response can say. The task is completed when the response is ok and
  its status is \<^verbatim>\<open>completed\<close>. The status is unrecognised when the response is ok, its body is
  JSON other than \<^verbatim>\<open>null\<close>, and its status is none of \<^verbatim>\<open>completed\<close>, \<^verbatim>\<open>failed\<close>,
  \<^verbatim>\<open>processing\<close> and \<^verbatim>\<open>error\<close>: no branch of \<^verbatim>\<open>poll\<close> is taken then.\<close>

definition task_completed :: "response \<Rightarrow> bool" where
  "task_completed resp =
     (case resp of
        NetworkError \<Rightarrow> False
      | Response ok body \<Rightarrow>
          ok \<and> (case body of
                  None \<Rightarrow> False
                | Some statusData \<Rightarrow> get_prop statusData ''status'' = Some (JStr ''completed'')))"

definition status_unrecognised :: "response \<Rightarrow> bool" where
  "status_unrecognised resp =
     (case resp of
        NetworkError \<Rightarrow> False
      | Response ok body \<Rightarrow>
          ok \<and> (case body of
                  None \<Rightarrow> False
                | Some statusData \<Rightarrow>
                    statusData \<noteq> JNull
                    \<and> get_prop statusData ''status''
                        \<notin> {Some (JStr ''completed''), Some (JStr ''failed''),
                            Some (JStr ''processing''), Some (JStr ''error'')}))"

text \<open>A response to \<^verbatim>\<open>generate\<close>'s request that queues a task: ok, with the status
  \<^verbatim>\<open>processing\<close> and a task id that is truthy.\<close>

definition task_queued :: "response \<Rightarrow> bool" where
  "task_queued resp =
     (case resp of
        NetworkError \<Rightarrow> False
      | Response ok body \<Rightarrow>
          ok \<and> (case body of
                  None \<Rightarrow> False
                | Some data \<Rightarrow> get_prop data ''status'' = Some (JStr ''processing'')
                               \<and> truthy (get_prop data ''task_id'')))"

text \<open>The backend's answer to the last request of a run.\<close>

definition last_answer :: "server \<Rightarrow> 'a browser_scheme \<Rightarrow> response" where
  "last_answer srv b = srv (requests (events b))"

text \<open>The delays of the timers among the events, in their order.\<close>

fun delays :: "event list \<Rightarrow> nat list" where
  "delays [] = []"
| "delays (SetTimeout d # es) = d # delays es"
| "delays (e # es) = delays es"

text \<open>What \<^verbatim>\<open>_checkForOngoingTask\<close> reads from a stored entry: the start time as a number and
  the task id, when the entry parses to something other than \<^verbatim>\<open>null\<close>.\<close>

definition stored_startTime :: "runtime \<Rightarrow> string \<Rightarrow> int option" where
  "stored_startTime rt taskData =
     (case JSON_parse rt taskData of
        None \<Rightarrow> None
      | Some JNull \<Rightarrow> None
      | Some parsed \<Rightarrow> ToNumber rt (get_prop parsed ''startTime''))"

definition stored_taskId :: "runtime \<Rightarrow> string \<Rightarrow> json option" where
  "stored_taskId rt taskData =
     (case JSON_parse rt taskData of
        None \<Rightarrow> None
      | Some JNull \<Rightarrow> None
      | Some parsed \<Rightarrow> get_prop parsed ''taskId'')"

text \<open>The message of the poll limit.\<close>

abbreviation (input) limit_text :: string where
  "limit_text \<equiv> ''Content generation is taking longer than expected. Please refresh the page to check status.''"

text \<open>
  What a step's response means to each controller. For \<^verbatim>\<open>_executeStep\<close> of the generate-content
  controller the step is completed when nothing is thrown: the response is ok, its body is
  JSON other than \<^verbatim>\<open>null\<close>, and the pipeline state in it does not report the step failed.
  \<^verbatim>\<open>executeStep\<close> of the pipeline controller accepts a step, returning \<^verbatim>\<open>true\<close>, when the body
  is JSON other than \<^verbatim>\<open>null\<close> with a status other than \<^verbatim>\<open>error\<close>; it does not read the
  \<^verbatim>\<open>ok\<close> flag. A step of that controller succeeded when its response is ok and it is
  accepted.
\<close>

definition step_reported_failed :: "string \<Rightarrow> json \<Rightarrow> bool" where
  "step_reported_failed step_name data =
     (case opt_prop (opt_prop (get_prop data ''pipeline_state'') ''steps'')
             (case backend_step_names step_name of Some b \<Rightarrow> b | None \<Rightarrow> ''undefined'') of
        None \<Rightarrow> False
      | Some step_status \<Rightarrow>
          truthy (Some step_status) \<and> get_prop step_status ''status'' = Some (JStr ''failed''))"

definition step_completed :: "string \<Rightarrow> response \<Rightarrow> bool" where
  "step_completed step_name resp =
     (case resp of
        NetworkError \<Rightarrow> False
      | Response ok body \<Rightarrow>
          (case body of
             None \<Rightarrow> False
           | Some data \<Rightarrow> data \<noteq> JNull \<and> ok \<and> \<not> step_reported_failed step_name data))"



text \<open>The backend's answer to the request for step \<open>i\<close> of \<open>todo\<close>, for post \<open>pid\<close>, when the
  requests \<open>hist\<close> and then the steps before \<open>i\<close> have been sent.\<close>

definition answer_to_step :: "server \<Rightarrow> request list \<Rightarrow> json option \<Rightarrow> string list \<Rightarrow> nat \<Rightarrow> response" where
  "answer_to_step srv hist pid todo i = srv (hist @ map (PipelineStep pid) (take (Suc i) todo))"

text \<open>The steps requested when \<open>todo\<close> is run in order and the run ends at the first step that
  does not pass.\<close>

fun steps_run ::
  "(string \<Rightarrow> response \<Rightarrow> bool) \<Rightarrow> server \<Rightarrow> request list \<Rightarrow> json option \<Rightarrow> string list \<Rightarrow> string list" where
  "steps_run passes srv hist pid [] = []"
| "steps_run passes srv hist pid (s # rest) =
     (if passes s (srv (hist @ [PipelineStep pid s]))
      then s # steps_run passes srv (hist @ [PipelineStep pid s]) pid rest
      else [s])"

text \<open>Whether the loop of \<^verbatim>\<open>continue\<close> over the recorded steps gets through without a throw.\<close>

fun entries_readable :: "(string \<times> json) list \<Rightarrow> bool" where
  "entries_readable [] = True"
| "entries_readable ((backend_step_name, step_info) # rest) =
     ((if step_name_map backend_step_name \<noteq> None \<or> backend_step_name \<in> set object_prototype_names
       then step_info \<noteq> JNull else True)
      \<and> entries_readable rest)"

definition status_readable :: "json \<Rightarrow> bool" where
  "status_readable statusData =
     (case get_prop statusData ''steps'' of
        None \<Rightarrow> True
      | Some recorded \<Rightarrow> if truthy (Some recorded) then entries_readable (object_entries recorded) else True)"

text \<open>The status the backend has recorded for a step of the pipeline, if it has one: the
  \<^verbatim>\<open>status\<close> of the entry of \<^verbatim>\<open>statusData.steps\<close> under the step's backend name.\<close>

definition recorded_status :: "json \<Rightarrow> string \<Rightarrow> json option" where
  "recorded_status statusData frontend_step =
     (case opt_prop (get_prop statusData ''steps'') (getBackendStepName frontend_step) of
        None \<Rightarrow> None
      | Some step_status \<Rightarrow> if truthy (Some step_status) then get_prop step_status ''status'' else None)"


section \<open>Example inputs\<close>

text \<open>The modal as \<^verbatim>\<open>connect()\<close> leaves it, on its first step, with a URL typed in.\<close>

definition onboarding_example :: onboarding where
  "onboarding_example =
     \<lparr>events = [], localStorage = Map.empty,
      currentStep = 1, createdProjectId = None, isUrlReachable = False,
      urlInput = '' https://example.com '', continueDisabled = True,
      step1 = {''flex''}, step2 = {''hidden''}, step3 = {''hidden''},
      step1Indicator = set active_classes, step2Indicator = set inactive_classes,
      step3Indicator = set inactive_classes,
      checkingIndicator = {''hidden''}, reachableIndicator = {''hidden''},
      unreachableIndicator = {''hidden''}, unreachableMessage = Lit [],
      hasProjectLinkTarget = True, projectLink = Hash, fallbackLink = None\<rparr>"

text \<open>A backend that finds every URL reachable and creates every project with id 17.\<close>

fun server_ok :: server where
  "server_ok rs =
     (case rev rs of
        [] \<Rightarrow> NetworkError
      | r # earlier \<Rightarrow>
          (case r of
            ValidateUrl u \<Rightarrow> Response True (Some (JObj [(''reachable'', JBool True)]))
          | CreateProject u \<Rightarrow> Response True (Some (JObj [(''status'', JStr ''success''), (''id'', JNum 17)]))
          | _ \<Rightarrow> Response False None))"

text \<open>What the module exports on the documented taxonomy.\<close>

definition exports_v1 :: analytics_exports where
  "exports_v1 =
     \<lparr>ANALYTICS_EVENT_TAXONOMY = taxonomy_v1,
      ANALYTICS_EVENT_NAMES = canonicalEventNames taxonomy_v1,
      ANALYTICS_EVENTS = analyticsEvents ascii_upper taxonomy_v1,
      DEPRECATED_ANALYTICS_EVENT_ALIASES = JObj [(''user_signed_up'', JStr ''signup_completed'')]\<rparr>"

text \<open>A stored task: the string \<^verbatim>\<open>generate\<close> writes for task \<^verbatim>\<open>t1\<close> started at time 1000, and a
  runtime that parses it (and \<^verbatim>\<open>null\<close>, and nothing else) and writes it.\<close>

definition stored_task :: string where
  "stored_task = ''{\"taskId\":\"t1\",\"startTime\":1000}''"

definition runtime_example :: runtime where
  "runtime_example =
     \<lparr>JSON_parse = (\<lambda>s. if s = stored_task
                          then Some (JObj [(''taskId'', JStr ''t1''), (''startTime'', JNum 1000)])
                          else if s = ''null'' then Some JNull else None),
      JSON_stringify = (\<lambda>v. if v = JObj [(''taskId'', JStr ''t1''), (''startTime'', JNum 1000)]
                              then stored_task else ''{}''),
      ToNumber_other = (\<lambda>v. None)\<rparr>"

definition task_controller_example :: task_controller where
  "task_controller_example =
     \<lparr>events = [], localStorage = Map.empty,
      suggestionIdValue = 7, projectIdValue = 3,
      hasStatusTarget = True, buttonContainer = ServerRendered,
      statusTarget = StatusServerRendered, postButtonContainer = None,
      pollingTimeoutId = False\<rparr>"

text \<open>A backend whose task \<^verbatim>\<open>t1\<close> never leaves \<^verbatim>\<open>processing\<close>, and one whose task is completed
  (as post 42) from the third request on.\<close>

definition processing_body :: json where
  "processing_body = JObj [(''status'', JStr ''processing''), (''task_id'', JStr ''t1'')]"

definition server_processing :: server where
  "server_processing rs = Response True (Some processing_body)"

definition server_completing :: server where
  "server_completing rs =
     (if length rs < 3 then Response True (Some processing_body)
      else Response True (Some (JObj [(''status'', JStr ''completed''), (''blog_post_id'', JNum 42)])))"

text \<open>The example controller with the stored task under its key, and with an empty string
  under its key.\<close>

definition task_controller_stored :: task_controller where
  "task_controller_stored =
     task_controller_example\<lparr>localStorage := [taskKey 7 \<mapsto> stored_task]\<rparr>"

definition task_controller_empty_entry :: task_controller where
  "task_controller_empty_entry =
     task_controller_example\<lparr>localStorage := [taskKey 7 \<mapsto> []]\<rparr>"

text \<open>A backend whose task fails: it queues the task and answers the first poll with the
  status \<^verbatim>\<open>failed\<close>.\<close>

definition server_task_fails :: server where
  "server_task_fails rs =
     (if length rs < 2 then Response True (Some processing_body)
      else Response True (Some (JObj [(''status'', JStr ''failed''), (''message'', JStr ''out of credits'')])))"

text \<open>A backend whose first answer to a poll carries the status \<^verbatim>\<open>queued\<close> and whose later
  answers say \<^verbatim>\<open>processing\<close>; the page loaded again in the same browser (the controller as
  the template renders it, with what \<^verbatim>\<open>localStorage\<close> holds, the events going on); and two
  visits of the page with the stored task, one minute and two minutes after the task
  started.\<close>

definition server_queued_first :: server where
  "server_queued_first rs =
     (if length rs < 2 then Response True (Some (JObj [(''status'', JStr ''queued'')]))
      else Response True (Some processing_body))"

definition reloaded :: "task_controller \<Rightarrow> task_controller" where
  "reloaded st = task_controller_example\<lparr>events := events st, localStorage := localStorage st\<rparr>"

definition first_visit :: task_controller where
  "first_visit = connect_task runtime_example 61000 server_queued_first task_controller_stored"

definition second_visit :: task_controller where
  "second_visit = connect_task runtime_example 120000 server_queued_first (reloaded first_visit)"

text \<open>A generate-content controller before a run, and backends for it: one that starts post 42 and
  answers the third step request with a server error; one that reports the first two steps of post 42 completed and completes
  the rest; one that reports nothing completed and fails the first step.\<close>

definition generate_content_example :: generate_content where
  "generate_content_example =
     \<lparr>events = [], localStorage = Map.empty,
      suggestionIdValue = 7, projectIdValue = 3,
      hasStatusTarget = True, buttonContainer = ServerRendered,
      statusTarget = StatusServerRendered, postButtonContainer = None,
      blogPostId = None, pipelineSteps = [], progressDialog = None\<rparr>"


definition status_two_completed :: json where
  "status_two_completed =
     JObj [(''steps'', JObj [(''generate_structure'', JObj [(''status'', JStr ''completed'')]),
                             (''generate_content'', JObj [(''status'', JStr ''completed'')]),
                             (''preliminary_validation'', JObj [(''status'', JStr ''failed'')])])]"

definition server_continue_ok :: server where
  "server_continue_ok rs =
     (case rev rs of
        [] \<Rightarrow> NetworkError
      | r # earlier \<Rightarrow>
          (case r of
            PipelineStatus pid \<Rightarrow> Response True (Some status_two_completed)
          | _ \<Rightarrow> Response True (Some (JObj [(''status'', JStr ''success'')]))))"

definition server_continue_fails :: server where
  "server_continue_fails rs =
     (case rev rs of
        [] \<Rightarrow> NetworkError
      | r # earlier \<Rightarrow>
          (case r of
            PipelineStatus pid \<Rightarrow> Response True (Some (JObj [(''steps'', JObj [])]))
          | _ \<Rightarrow> Response False (Some (JObj [(''message'', JStr ''out of credits'')]))))"

text \<open>A pipeline controller as its template and \<^verbatim>\<open>connect()\<close> leave it.\<close>

definition pipeline_example :: blog_generation_pipeline where
  "pipeline_example =
     \<lparr>events = [], localStorage = Map.empty,
      suggestionIdValue = 7, projectIdValue = 3,
      blogPostId_p = Some JNull, currentStep_p = None, retryCount = Map.empty,
      hasDialogTarget = True, hasProgressBarTarget = True, hasErrorMessageTarget = True,
      hasRetryButtonTarget = True, hasCloseButtonTarget = True,
      dialogHidden = True, steps = [], progressBar = 0,
      errorMessage = None, errorMessageHidden = True,
      retryButton = None, retryButtonHidden = True,
      closeButton = None, closeButtonHidden = True\<rparr>"


text \<open>A backend that starts post 42 and answers every step request with an error, and the
  pipeline controller after a start against it followed by three clicks on the retry
  button.\<close>

definition server_steps_fail :: server where
  "server_steps_fail rs =
     (case rev rs of
        [] \<Rightarrow> NetworkError
      | r # earlier \<Rightarrow>
          (case r of
            PipelineStart sid \<Rightarrow> Response True (Some (JObj [(''status'', JStr ''success''), (''blog_post_id'', JNum 42)]))
          | PipelineStep pid name \<Rightarrow> Response True (Some (JObj [(''status'', JStr ''error''), (''message'', JStr ''boom'')]))
          | _ \<Rightarrow> Response True (Some (JObj [(''status'', JStr ''success'')]))))"

definition started_and_failed :: blog_generation_pipeline where
  "started_and_failed = startPipeline server_steps_fail pipeline_example"

definition retried_three_times :: blog_generation_pipeline where
  "retried_three_times =
     click_retry server_steps_fail
       (click_retry server_steps_fail
          (click_retry server_steps_fail started_and_failed))"


section \<open>Theorems\<close>

lemma events_update_project_link [simp]: "events (update_project_link st) = events st"
  by (simp add: update_project_link_def split: option.splits)

lemma panels_update_project_link [simp]:
  "step1 (update_project_link st) = step1 st"
  "step2 (update_project_link st) = step2 st"
  "step3 (update_project_link st) = step3 st"
  "step1Indicator (update_project_link st) = step1Indicator st"
  "step2Indicator (update_project_link st) = step2Indicator st"
  "step3Indicator (update_project_link st) = step3Indicator st"
  by (simp_all add: update_project_link_def split: option.splits)

lemma events_goToStep [simp]: "events (goToStep n st) = events st"
  by (simp add: goToStep_def Let_def)

lemma requests_append [simp]: "requests (xs @ ys) = requests xs @ requests ys"
  by (induction xs rule: requests.induct) simp_all

text \<open>
  C10. After \<^verbatim>\<open>goToStep(n)\<close> with \<open>n\<close> one of 1, 2, 3, whatever the classes of the panels and
  indicators were before: the panel of step \<open>n\<close> is visible (it has no class \<^verbatim>\<open>hidden\<close>) and
  the two others are not; the indicator of step \<open>n\<close> has the three active classes and none
  of the inactive ones; each other indicator has the three inactive classes and none of
  the active ones.
\<close>

theorem goToStep_one_panel_one_indicator:
  assumes "n = 1 \<or> n = 2 \<or> n = 3"
  shows "(visible (step1 (goToStep n st)) \<longleftrightarrow> n = 1)
       \<and> (visible (step2 (goToStep n st)) \<longleftrightarrow> n = 2)
       \<and> (visible (step3 (goToStep n st)) \<longleftrightarrow> n = 3)
       \<and> (if n = 1
           then carries active_classes (step1Indicator (goToStep n st))
              \<and> carries_none inactive_classes (step1Indicator (goToStep n st))
           else carries inactive_classes (step1Indicator (goToStep n st))
              \<and> carries_none active_classes (step1Indicator (goToStep n st)))
       \<and> (if n = 2
           then carries active_classes (step2Indicator (goToStep n st))
              \<and> carries_none inactive_classes (step2Indicator (goToStep n st))
           else carries inactive_classes (step2Indicator (goToStep n st))
              \<and> carries_none active_classes (step2Indicator (goToStep n st)))
       \<and> (if n = 3
           then carries active_classes (step3Indicator (goToStep n st))
              \<and> carries_none inactive_classes (step3Indicator (goToStep n st))
           else carries inactive_classes (step3Indicator (goToStep n st))
              \<and> carries_none active_classes (step3Indicator (goToStep n st)))"
proof -
  have disjoint: "set active_classes \<inter> set inactive_classes = {}"
    by (simp add: active_classes_def inactive_classes_def)
  from assms consider "n = 1" | "n = 2" | "n = 3" by blast
  then show ?thesis
  proof cases
    case 1
    with disjoint show ?thesis
      by (auto simp: goToStep_def Let_def visible_def carries_def carries_none_def
          classList_add_def classList_remove_def)
  next
    case 2
    with disjoint show ?thesis
      by (auto simp: goToStep_def Let_def visible_def carries_def carries_none_def
          classList_add_def classList_remove_def)
  next
    case 3
    with disjoint show ?thesis
      by (auto simp: goToStep_def Let_def visible_def carries_def carries_none_def
          classList_add_def classList_remove_def)
  qed
qed

theorem goToStep_one_panel_one_indicator_witness:
  "visible (step2 (goToStep 2 onboarding_example))
   \<and> \<not> visible (step1 (goToStep 2 onboarding_example))
   \<and> \<not> visible (step3 (goToStep 2 onboarding_example))
   \<and> carries active_classes (step2Indicator (goToStep 2 onboarding_example))
   \<and> carries inactive_classes (step1Indicator (goToStep 2 onboarding_example))
   \<and> carries inactive_classes (step3Indicator (goToStep 2 onboarding_example))"
  using goToStep_one_panel_one_indicator [of 2 onboarding_example] by simp

lemma requests_submit_failed [simp]:
  "requests (events (submit_failed st)) = requests (events st)"
  by (simp add: submit_failed_def emit_def)

lemma requests_submitProject:
  assumes "trim (urlInput st) \<noteq> []" and "isUrlReachable st"
  shows "requests (events (submitProject srv st))
         = requests (events st) @ [CreateProject (trim (urlInput st))]"
  using assms
  by (simp add: submitProject_def Let_def fetch_def emit_def
      split: response.splits option.splits json.splits)

text \<open>
  C7. \<^verbatim>\<open>submitProject()\<close> posts the project only when the trimmed URL is not empty and
  \<^verbatim>\<open>isUrlReachable\<close> is true: when either fails the handler returns the state it was given
  (no request, no change of step, nothing else), so a run that sends anything passed the
  guard; and past the guard the one request it sends is the project creation for the
  trimmed URL.
\<close>

theorem submitProject_guarded:
  "(trim (urlInput st) = [] \<or> \<not> isUrlReachable st \<longrightarrow> submitProject srv st = st)
   \<and> (requests (events (submitProject srv st)) \<noteq> requests (events st)
        \<longrightarrow> trim (urlInput st) \<noteq> [] \<and> isUrlReachable st
            \<and> requests (events (submitProject srv st))
                = requests (events st) @ [CreateProject (trim (urlInput st))])"
proof (intro conjI impI)
  assume "trim (urlInput st) = [] \<or> \<not> isUrlReachable st"
  then show "submitProject srv st = st"
    by (auto simp: submitProject_def)
next
  assume sent: "requests (events (submitProject srv st)) \<noteq> requests (events st)"
  have guard: "trim (urlInput st) \<noteq> [] \<and> isUrlReachable st"
  proof (rule ccontr)
    assume "\<not> (trim (urlInput st) \<noteq> [] \<and> isUrlReachable st)"
    then have "submitProject srv st = st" by (auto simp: submitProject_def)
    with sent show False by simp
  qed
  then show "trim (urlInput st) \<noteq> []" and "isUrlReachable st" by simp_all
  from guard show "requests (events (submitProject srv st))
      = requests (events st) @ [CreateProject (trim (urlInput st))]"
    by (simp add: requests_submitProject)
qed

lemma trim_example: "trim '' https://example.com '' = ''https://example.com''"
  by (simp add: trim_def is_js_space_def)

theorem submitProject_guarded_witness:
  "submitProject server_ok onboarding_example = onboarding_example
   \<and> requests (events (submitProject server_ok (onboarding_example\<lparr>isUrlReachable := True\<rparr>)))
       = [CreateProject ''https://example.com'']
   \<and> requests (events (submitProject server_ok (onboarding_example\<lparr>isUrlReachable := True\<rparr>)))
       \<noteq> requests (events (onboarding_example\<lparr>isUrlReachable := True\<rparr>))"
proof -
  have closed: "\<not> isUrlReachable onboarding_example"
    by (simp add: onboarding_example_def)
  have run: "requests (events (submitProject server_ok (onboarding_example\<lparr>isUrlReachable := True\<rparr>)))
       = [CreateProject ''https://example.com'']"
    by (simp add: requests_submitProject onboarding_example_def trim_example)
  have idle: "requests (events (onboarding_example\<lparr>isUrlReachable := True\<rparr>)) = []"
    by (simp add: onboarding_example_def)
  from closed submitProject_guarded [of onboarding_example server_ok]
  have "submitProject server_ok onboarding_example = onboarding_example" by blast
  moreover note run
  moreover from run idle
  have "requests (events (submitProject server_ok (onboarding_example\<lparr>isUrlReachable := True\<rparr>)))
       \<noteq> requests (events (onboarding_example\<lparr>isUrlReachable := True\<rparr>))" by simp
  ultimately show ?thesis by blast
qed

subsection \<open>The analytics constants\<close>

lemma foldl_upd_lookup:
  "foldl (\<lambda>events eventName. events(up eventName \<mapsto> eventName)) m0 names k
   = (if filter (\<lambda>m. up m = k) names = [] then m0 k
      else Some (last (filter (\<lambda>m. up m = k) names)))"
  by (induction names rule: rev_induct) auto

lemma analyticsEvents_lookup:
  "analyticsEvents up tax k
   = (if filter (\<lambda>m. up m = k) (canonicalEventNames tax) = [] then None
      else Some (last (filter (\<lambda>m. up m = k) (canonicalEventNames tax))))"
  by (simp add: analyticsEvents_def foldl_upd_lookup)

text \<open>
  C8, as amended. When the module loads, \<^verbatim>\<open>ANALYTICS_EVENT_NAMES\<close> is the list of keys of the
  taxonomy's \<^verbatim>\<open>events\<close> object, and the empty list when there is no \<^verbatim>\<open>events\<close>. For every name
  \<open>n\<close> of that list, \<^verbatim>\<open>ANALYTICS_EVENTS\<close> maps \<^verbatim>\<open>n.toUpperCase()\<close> to the last name of the list
  with the same upper-case form: a later name overwrites an earlier one. So it maps
  \<^verbatim>\<open>n.toUpperCase()\<close> to \<open>n\<close> itself when no other name has the upper-case form of \<open>n\<close>.
\<close>

theorem analytics_events_last_name_wins:
  assumes "analytics_events_module toUpperCase eventTaxonomy = Some exports"
  shows "(\<forall>kvs. get_prop eventTaxonomy ''events'' = Some (JObj kvs)
            \<longrightarrow> ANALYTICS_EVENT_NAMES exports = map fst kvs)
       \<and> (get_prop eventTaxonomy ''events'' = None \<longrightarrow> ANALYTICS_EVENT_NAMES exports = [])
       \<and> (\<forall>n \<in> set (ANALYTICS_EVENT_NAMES exports).
             ANALYTICS_EVENTS exports (toUpperCase n)
               = Some (last (filter (\<lambda>m. toUpperCase m = toUpperCase n) (ANALYTICS_EVENT_NAMES exports)))
             \<and> ((\<forall>m \<in> set (ANALYTICS_EVENT_NAMES exports). toUpperCase m = toUpperCase n \<longrightarrow> m = n)
                  \<longrightarrow> ANALYTICS_EVENTS exports (toUpperCase n) = Some n))"
proof -
  from assms have names: "ANALYTICS_EVENT_NAMES exports = canonicalEventNames eventTaxonomy"
    and events: "ANALYTICS_EVENTS exports = analyticsEvents toUpperCase eventTaxonomy"
    by (auto simp: analytics_events_module_def split: if_splits)
  have keys: "\<forall>kvs. get_prop eventTaxonomy ''events'' = Some (JObj kvs)
      \<longrightarrow> ANALYTICS_EVENT_NAMES exports = map fst kvs"
    by (simp add: names canonicalEventNames_def or_else_def)
  have absent: "get_prop eventTaxonomy ''events'' = None \<longrightarrow> ANALYTICS_EVENT_NAMES exports = []"
    by (simp add: names canonicalEventNames_def or_else_def)
  have last_wins: "ANALYTICS_EVENTS exports (toUpperCase n)
      = Some (last (filter (\<lambda>m. toUpperCase m = toUpperCase n) (ANALYTICS_EVENT_NAMES exports)))"
    if "n \<in> set (ANALYTICS_EVENT_NAMES exports)" for n
  proof -
    from that have "filter (\<lambda>m. toUpperCase m = toUpperCase n) (canonicalEventNames eventTaxonomy) \<noteq> []"
      by (auto simp: names filter_empty_conv)
    then show ?thesis by (simp add: events names analyticsEvents_lookup)
  qed
  have own: "ANALYTICS_EVENTS exports (toUpperCase n) = Some n"
    if "n \<in> set (ANALYTICS_EVENT_NAMES exports)"
      and "\<forall>m \<in> set (ANALYTICS_EVENT_NAMES exports). toUpperCase m = toUpperCase n \<longrightarrow> m = n" for n
  proof -
    let ?same = "filter (\<lambda>m. toUpperCase m = toUpperCase n) (ANALYTICS_EVENT_NAMES exports)"
    from that(1) have "?same \<noteq> []" by (auto simp: filter_empty_conv)
    then have "last ?same \<in> set ?same" by (rule last_in_set)
    with that(2) have "last ?same = n" by auto
    with last_wins [OF that(1)] show ?thesis by simp
  qed
  from keys absent last_wins own show ?thesis by blast
qed

text \<open>
  C8 as stated fails on a taxonomy with the events \<^verbatim>\<open>checkout\<close> and \<^verbatim>\<open>Checkout\<close>: the name
  \<^verbatim>\<open>checkout\<close> is in the list, and under \<^verbatim>\<open>CHECKOUT\<close> the constants hold \<^verbatim>\<open>Checkout\<close>.
\<close>

theorem analytics_events_counterexample:
  "''checkout'' \<in> set (canonicalEventNames taxonomy_mixed_case)
   \<and> analyticsEvents ascii_upper taxonomy_mixed_case (ascii_upper ''checkout'') = Some ''Checkout''
   \<and> analyticsEvents ascii_upper taxonomy_mixed_case (ascii_upper ''checkout'') \<noteq> Some ''checkout''"
  by (simp add: taxonomy_mixed_case_def canonicalEventNames_def
      analyticsEvents_def or_else_def ascii_upper_def)

lemma names_v1: "canonicalEventNames taxonomy_v1 =
        [''site_visited'', ''signup_completed'', ''project_created'', ''project_deleted'',
         ''first_title_generated'', ''first_post_generated'', ''first_publish_attempt'',
         ''pricing_cta_clicked'', ''checkout_started'', ''checkout_completed'',
         ''checkout_failed'', ''subscription_created'', ''subscription_upgraded'',
         ''subscription_cancelled'', ''subscription_deleted'']"
  by (simp add: taxonomy_v1_def canonicalEventNames_def or_else_def)

lemma module_v1: "analytics_events_module ascii_upper taxonomy_v1 = Some exports_v1"
  by (simp add: analytics_events_module_def exports_v1_def) (simp add: taxonomy_v1_def or_else_def)

theorem analytics_events_last_name_wins_witness:
  "analytics_events_module ascii_upper taxonomy_v1 = Some exports_v1
   \<and> ''signup_completed'' \<in> set (ANALYTICS_EVENT_NAMES exports_v1)
   \<and> ANALYTICS_EVENTS exports_v1 ''SIGNUP_COMPLETED'' = Some ''signup_completed''"
proof -
  have member: "''signup_completed'' \<in> set (ANALYTICS_EVENT_NAMES exports_v1)"
    by (simp add: exports_v1_def names_v1)
  have alone: "\<forall>m \<in> set (ANALYTICS_EVENT_NAMES exports_v1).
      ascii_upper m = ascii_upper ''signup_completed'' \<longrightarrow> m = ''signup_completed''"
    by (simp add: exports_v1_def names_v1 ascii_upper_def)
  have upper: "ascii_upper ''signup_completed'' = ''SIGNUP_COMPLETED''"
    by (simp add: ascii_upper_def)
  from analytics_events_last_name_wins [OF module_v1] member alone
  have "ANALYTICS_EVENTS exports_v1 (ascii_upper ''signup_completed'') = Some ''signup_completed''"
    by blast
  with module_v1 member upper show ?thesis by simp
qed

subsection \<open>Polling a task\<close>

lemma digits_7: "digits 7 = ''7''"
  by (simp add: digits.simps)

lemma events_emit [simp]: "events (emit e b) = events b @ [e]"
  by (simp add: emit_def)

lemma localStorage_emit [simp]: "localStorage (emit e b) = localStorage b"
  by (simp add: emit_def)

lemma events_removeItem [simp]: "events (removeItem k b) = events b"
  by (simp add: removeItem_def)

lemma events_showMessage [simp]: "events (showMessage t l b) = events b @ [ShowMessage l t]"
  by (simp add: showMessage_def)

lemma fetch_eq: "fetch srv r b = (srv (requests (events b) @ [r]), emit (Fetch r) b)"
  by (simp add: fetch_def)

lemma events_resetToInitialState [simp]: "events (resetToInitialState st) = events st"
  by (simp add: resetToInitialState_def Let_def)

lemma events_poll_caught [simp]:
  "events (poll_caught e st) = events st @ [ShowMessage Failure (or_text e ''Failed to check generation status'')]"
  by (simp add: poll_caught_def)

lemma events_appendPostButton [simp]: "events (snd (appendPostButton rt p st)) = events st"
  by (simp add: appendPostButton_def Let_def split: option.splits)

lemma events_updateToCompletedState:
  assumes "updateToCompletedState rt p st = (r, st2)"
  shows "events st2 = events st @ (if r = None
                  then [ShowMessage Success (Lit ''Content generated successfully!'')] else [])"
proof -
  let ?st2 = "(removeItem (taskKey (suggestionIdValue st)) st)
     \<lparr>buttonContainer := ViewPostLink (projectIdValue (removeItem (taskKey (suggestionIdValue st)) st)) p,
       statusTarget := (if hasStatusTarget (removeItem (taskKey (suggestionIdValue st)) st) then StatusGenerated
          else statusTarget (removeItem (taskKey (suggestionIdValue st)) st))\<rparr>"
  have "events (snd (appendPostButton rt p ?st2)) = events st"
    by (simp only: events_appendPostButton) simp
  with assms show ?thesis
    by (cases "appendPostButton rt p ?st2")
       (auto simp: updateToCompletedState_def Let_def split: option.splits)
qed

text \<open>One poll, by what the backend answers.\<close>

lemma poll_continue:
  assumes "still_processing (srv (requests (events st) @ [TaskStatus taskId]))"
    and "a + 1 < maxAttempts"
  shows "poll rt srv taskId a st
         = poll rt srv taskId (a + 1)
             (emit (SetTimeout pollInterval) (show_elapsed (a + 1) (emit (Fetch (TaskStatus taskId)) st))
                \<lparr>pollingTimeoutId := True\<rparr>)"
  using assms
  by (subst poll.simps)
     (auto simp: still_processing_def fetch_eq Let_def split: response.splits option.splits json.splits)

lemma poll_exhausted:
  assumes "still_processing (srv (requests (events st) @ [TaskStatus taskId]))"
    and "\<not> a + 1 < maxAttempts"
  shows "poll rt srv taskId a st
         = poll_caught (Lit ''Content generation is taking longer than expected. Please refresh the page to check status.'')
             (emit (Fetch (TaskStatus taskId)) st)"
  using assms
  by (subst poll.simps)
     (auto simp: still_processing_def fetch_eq Let_def split: response.splits option.splits json.splits)

lemma poll_settled:
  assumes "\<not> still_processing (srv (requests (events st) @ [TaskStatus taskId]))"
  shows "\<exists>fin. events (poll rt srv taskId a st) = events st @ Fetch (TaskStatus taskId) # fin
               \<and> (fin = [] \<or> (\<exists>l t. fin = [ShowMessage l t]))"
  using assms
  by (subst poll.simps)
     (auto simp: still_processing_def fetch_eq Let_def
           dest!: events_updateToCompletedState
           split: response.splits option.splits json.splits prod.splits)

lemma requests_replicate_polls [simp]:
  "requests (concat (replicate k [SetTimeout d, Fetch r])) = replicate k r"
  by (induction k) simp_all

lemma concat_replicate_shift:
  "x # y # concat (replicate k [x, y]) = concat (replicate k [x, y]) @ [x, y]"
  by (induction k) simp_all

lemma frame_show_elapsed [simp]:
  "events (show_elapsed a st) = events st"
  "localStorage (show_elapsed a st) = localStorage st"
  "suggestionIdValue (show_elapsed a st) = suggestionIdValue st"
  "hasStatusTarget (show_elapsed a st) = hasStatusTarget st"
  "buttonContainer (show_elapsed a st) = buttonContainer st"
  by (simp_all add: show_elapsed_def)

lemma frame_emit [simp]:
  "suggestionIdValue (emit e st) = suggestionIdValue st"
  "hasStatusTarget (emit e st) = hasStatusTarget st"
  "buttonContainer (emit e st) = buttonContainer st"
  by (simp_all add: emit_def)

lemma reset_result [simp]:
  "buttonContainer (resetToInitialState st) = GenerateButton"
  "hasStatusTarget st \<Longrightarrow> statusTarget (resetToInitialState st) = StatusReady"
  "localStorage (resetToInitialState st) (taskKey (suggestionIdValue st)) = None"
  "suggestionIdValue (resetToInitialState st) = suggestionIdValue st"
  "hasStatusTarget (resetToInitialState st) = hasStatusTarget st"
  by (simp_all add: resetToInitialState_def removeItem_def Let_def)

lemma poll_caught_result [simp]:
  "buttonContainer (poll_caught e st) = GenerateButton"
  "hasStatusTarget st \<Longrightarrow> statusTarget (poll_caught e st) = StatusReady"
  "localStorage (poll_caught e st) (taskKey (suggestionIdValue st)) = None"
  by (simp_all add: poll_caught_def showMessage_def resetToInitialState_def removeItem_def emit_def Let_def)

lemma poll_run:
  assumes "a < maxAttempts"
  shows "\<exists>k fin. a + k < maxAttempts
      \<and> events (poll rt srv taskId a st)
          = events st @ Fetch (TaskStatus taskId)
              # concat (replicate k [SetTimeout pollInterval, Fetch (TaskStatus taskId)]) @ fin
      \<and> (fin = [] \<or> (\<exists>l t. fin = [ShowMessage l t]))
      \<and> (still_processing (srv (requests (events (poll rt srv taskId a st))))
           \<longrightarrow> a + k + 1 = maxAttempts
             \<and> fin = [ShowMessage Failure (Lit limit_text)]
             \<and> buttonContainer (poll rt srv taskId a st) = GenerateButton
             \<and> (hasStatusTarget st \<longrightarrow> statusTarget (poll rt srv taskId a st) = StatusReady)
             \<and> localStorage (poll rt srv taskId a st) (taskKey (suggestionIdValue st)) = None)"
  using assms
proof (induction "maxAttempts - a" arbitrary: a st rule: less_induct)
  case less
  let ?r = "TaskStatus taskId"
  let ?res = "poll rt srv taskId a st"
  show ?case
  proof (cases "still_processing (srv (requests (events st) @ [?r]))")
    case False
    from poll_settled [where srv = srv and st = st and taskId = taskId and rt = rt and a = a, OF False] obtain fin where
      ev: "events ?res = events st @ Fetch ?r # fin"
      and fin: "fin = [] \<or> (\<exists>l t. fin = [ShowMessage l t])" by blast
    from ev fin have "requests (events ?res) = requests (events st) @ [?r]" by auto
    with False have "\<not> still_processing (srv (requests (events ?res)))" by simp
    with ev fin less.prems show ?thesis
      by (intro exI [of _ 0] exI [of _ fin]) simp
  next
    case True
    show ?thesis
    proof (cases "a + 1 < maxAttempts")
      case False
      with less.prems have last: "a + 1 = maxAttempts" by simp
      have res: "?res = poll_caught (Lit limit_text) (emit (Fetch ?r) st)"
        using poll_exhausted [where srv = srv and st = st and taskId = taskId and rt = rt and a = a, OF True False] by simp
      have "is_empty_text (Lit limit_text) = False" by simp
      then have limit_shown: "or_text (Lit limit_text) ''Failed to check generation status'' = Lit limit_text"
        by (simp add: or_text_def)
      have removed: "localStorage (poll_caught (Lit limit_text) (emit (Fetch ?r) st))
          (taskKey (suggestionIdValue st)) = None"
        using poll_caught_result(3) [of "Lit limit_text" "emit (Fetch ?r) st"] by simp
      from last have "Suc a = maxAttempts" by simp
      with removed show ?thesis
        by (intro exI [of _ 0] exI [of _ "[ShowMessage Failure (Lit limit_text)]"])
           (simp add: res limit_shown less.prems)
    next
      case next_poll: True
      let ?st' = "(emit (SetTimeout pollInterval) (show_elapsed (a + 1) (emit (Fetch ?r) st)))
                    \<lparr>pollingTimeoutId := True\<rparr>"
      have res: "?res = poll rt srv taskId (a + 1) ?st'"
        by (rule poll_continue [where srv = srv and st = st and taskId = taskId and rt = rt and a = a, OF True next_poll])
      have "maxAttempts - (a + 1) < maxAttempts - a"
        using next_poll by simp
      from less.hyps [OF this next_poll, of ?st'] obtain k fin where
        bound: "a + 1 + k < maxAttempts"
        and ev: "events (poll rt srv taskId (a + 1) ?st')
            = events ?st' @ Fetch ?r # concat (replicate k [SetTimeout pollInterval, Fetch ?r]) @ fin"
        and fin: "fin = [] \<or> (\<exists>l t. fin = [ShowMessage l t])"
        and still: "still_processing (srv (requests (events (poll rt srv taskId (a + 1) ?st'))))
           \<longrightarrow> a + 1 + k + 1 = maxAttempts
             \<and> fin = [ShowMessage Failure (Lit limit_text)]
             \<and> buttonContainer (poll rt srv taskId (a + 1) ?st') = GenerateButton
             \<and> (hasStatusTarget ?st' \<longrightarrow> statusTarget (poll rt srv taskId (a + 1) ?st') = StatusReady)
             \<and> localStorage (poll rt srv taskId (a + 1) ?st') (taskKey (suggestionIdValue ?st')) = None"
        by blast
      have ev': "events ?res = events st @ Fetch ?r
          # concat (replicate (Suc k) [SetTimeout pollInterval, Fetch ?r]) @ fin"
        using ev by (simp add: res)
      from bound have bound': "a + Suc k < maxAttempts" by simp
      from still have still': "still_processing (srv (requests (events ?res)))
           \<longrightarrow> a + Suc k + 1 = maxAttempts
             \<and> fin = [ShowMessage Failure (Lit limit_text)]
             \<and> buttonContainer ?res = GenerateButton
             \<and> (hasStatusTarget st \<longrightarrow> statusTarget ?res = StatusReady)
             \<and> localStorage ?res (taskKey (suggestionIdValue st)) = None"
        by (simp add: res)
      from bound' ev' fin still' show ?thesis by blast
    qed
  qed
qed

lemma pollTaskStatus_run:
  "\<exists>k fin. k < 100
      \<and> events (pollTaskStatus rt srv taskId st)
          = events st @ SetTimeout 2000 # Fetch (TaskStatus taskId)
              # concat (replicate k [SetTimeout 3000, Fetch (TaskStatus taskId)]) @ fin
      \<and> (fin = [] \<or> (\<exists>l t. fin = [ShowMessage l t]))
      \<and> (still_processing (srv (requests (events (pollTaskStatus rt srv taskId st))))
           \<longrightarrow> k = 99
             \<and> fin = [ShowMessage Failure (Lit limit_text)]
             \<and> buttonContainer (pollTaskStatus rt srv taskId st) = GenerateButton
             \<and> (hasStatusTarget st \<longrightarrow> statusTarget (pollTaskStatus rt srv taskId st) = StatusReady)
             \<and> localStorage (pollTaskStatus rt srv taskId st) (taskKey (suggestionIdValue st)) = None)"
proof -
  let ?st0 = "(emit (SetTimeout initialDelay) st)\<lparr>pollingTimeoutId := True\<rparr>"
  have start: "pollTaskStatus rt srv taskId st = poll rt srv taskId 0 ?st0"
    by (simp add: pollTaskStatus_def)
  have "(0::nat) < maxAttempts" by (simp add: maxAttempts_def)
  from poll_run [OF this, of rt srv taskId ?st0] obtain k fin where
    "0 + k < maxAttempts"
    "events (poll rt srv taskId 0 ?st0)
       = events ?st0 @ Fetch (TaskStatus taskId)
           # concat (replicate k [SetTimeout pollInterval, Fetch (TaskStatus taskId)]) @ fin"
    "fin = [] \<or> (\<exists>l t. fin = [ShowMessage l t])"
    "still_processing (srv (requests (events (poll rt srv taskId 0 ?st0))))
       \<longrightarrow> 0 + k + 1 = maxAttempts
         \<and> fin = [ShowMessage Failure (Lit limit_text)]
         \<and> buttonContainer (poll rt srv taskId 0 ?st0) = GenerateButton
         \<and> (hasStatusTarget ?st0 \<longrightarrow> statusTarget (poll rt srv taskId 0 ?st0) = StatusReady)
         \<and> localStorage (poll rt srv taskId 0 ?st0) (taskKey (suggestionIdValue ?st0)) = None"
    by blast
  then show ?thesis
    unfolding start
    by (intro exI [of _ k] exI [of _ fin])
       (simp add: maxAttempts_def initialDelay_def pollInterval_def)
qed

lemma delays_append [simp]: "delays (xs @ ys) = delays xs @ delays ys"
  by (induction xs rule: delays.induct) simp_all

lemma delays_replicate_polls [simp]:
  "delays (concat (replicate k [SetTimeout d, Fetch r])) = replicate k d"
  by (induction k) simp_all

text \<open>
  C6, as amended. The bound is on one call of \<^verbatim>\<open>_pollTaskStatus(taskId)\<close>, not on the task: the
  counter \<^verbatim>\<open>attempts\<close> is local to the call. One call sets a timer of 2000 ms and then polls;
  between two polls it sets a timer of 3000 ms; it sends \<open>k + 1\<close> status requests with
  \<open>k < 100\<close>, so at most 100, and waits \<open>2000 + 3000 k\<close> ms in all, under five minutes. After
  the last poll it shows at most one message. If the answer to the last poll still says
  \<^verbatim>\<open>processing\<close>, then that poll was the hundredth, the message is the one of the limit, shown
  as an error, the button is the Generate button again, the status (when there is a status
  target) reads ready, and the task's entry in \<^verbatim>\<open>localStorage\<close> is gone.
\<close>

theorem pollTaskStatus_at_most_100_polls:
  "\<exists>k fin. k < 100
      \<and> events (pollTaskStatus rt srv taskId st)
          = events st @ SetTimeout 2000 # Fetch (TaskStatus taskId)
              # concat (replicate k [SetTimeout 3000, Fetch (TaskStatus taskId)]) @ fin
      \<and> (fin = [] \<or> (\<exists>l t. fin = [ShowMessage l t]))
      \<and> requests (events (pollTaskStatus rt srv taskId st))
          = requests (events st) @ replicate (k + 1) (TaskStatus taskId)
      \<and> delays (events (pollTaskStatus rt srv taskId st))
          = delays (events st) @ 2000 # replicate k 3000
      \<and> (still_processing (srv (requests (events (pollTaskStatus rt srv taskId st))))
           \<longrightarrow> k = 99
             \<and> fin = [ShowMessage Failure (Lit ''Content generation is taking longer than expected. Please refresh the page to check status.'')]
             \<and> buttonContainer (pollTaskStatus rt srv taskId st) = GenerateButton
             \<and> (hasStatusTarget st \<longrightarrow> statusTarget (pollTaskStatus rt srv taskId st) = StatusReady)
             \<and> localStorage (pollTaskStatus rt srv taskId st) (taskKey (suggestionIdValue st)) = None)"
proof -
  let ?res = "pollTaskStatus rt srv taskId st"
  from pollTaskStatus_run [of rt srv taskId st] obtain k fin where
    bound: "k < 100"
    and ev: "events ?res = events st @ SetTimeout 2000 # Fetch (TaskStatus taskId)
              # concat (replicate k [SetTimeout 3000, Fetch (TaskStatus taskId)]) @ fin"
    and fin: "fin = [] \<or> (\<exists>l t. fin = [ShowMessage l t])"
    and still: "still_processing (srv (requests (events ?res)))
           \<longrightarrow> k = 99
             \<and> fin = [ShowMessage Failure (Lit limit_text)]
             \<and> buttonContainer ?res = GenerateButton
             \<and> (hasStatusTarget st \<longrightarrow> statusTarget ?res = StatusReady)
             \<and> localStorage ?res (taskKey (suggestionIdValue st)) = None"
    by blast
  from fin have quiet: "requests fin = []" "delays fin = []" by auto
  from ev quiet have sent:
    "requests (events ?res) = requests (events st) @ replicate (k + 1) (TaskStatus taskId)"
    by simp
  from ev quiet have waits: "delays (events ?res) = delays (events st) @ 2000 # replicate k 3000"
    by simp
  from bound ev fin sent waits still show ?thesis by blast
qed

lemma length_concat_replicate_pair [simp]:
  "length (concat (replicate k [x, y])) = 2 * k"
  by (induction k) simp_all

theorem pollTaskStatus_at_most_100_polls_witness:
  "events (pollTaskStatus runtime_example server_processing (Some (JStr ''t1'')) task_controller_example)
     = SetTimeout 2000 # Fetch (TaskStatus (Some (JStr ''t1'')))
         # concat (replicate 99 [SetTimeout 3000, Fetch (TaskStatus (Some (JStr ''t1'')))])
         @ [ShowMessage Failure (Lit ''Content generation is taking longer than expected. Please refresh the page to check status.'')]
   \<and> requests (events (pollTaskStatus runtime_example server_processing (Some (JStr ''t1'')) task_controller_example))
     = replicate 100 (TaskStatus (Some (JStr ''t1'')))
   \<and> delays (events (pollTaskStatus runtime_example server_processing (Some (JStr ''t1'')) task_controller_example))
     = 2000 # replicate 99 3000
   \<and> buttonContainer (pollTaskStatus runtime_example server_processing (Some (JStr ''t1'')) task_controller_example)
     = GenerateButton
   \<and> statusTarget (pollTaskStatus runtime_example server_processing (Some (JStr ''t1'')) task_controller_example)
     = StatusReady"
proof -
  let ?res = "pollTaskStatus runtime_example server_processing (Some (JStr ''t1'')) task_controller_example"
  let ?r = "TaskStatus (Some (JStr ''t1''))"
  have still: "still_processing (server_processing rs)" for rs
    by (simp add: still_processing_def server_processing_def processing_body_def)
  have target: "hasStatusTarget task_controller_example" and idle: "events task_controller_example = []"
    by (simp_all add: task_controller_example_def)
  from pollTaskStatus_at_most_100_polls
    [of runtime_example server_processing "Some (JStr ''t1'')" task_controller_example] still target idle
  have ev: "events ?res = SetTimeout 2000 # Fetch ?r # concat (replicate 99 [SetTimeout 3000, Fetch ?r])
         @ [ShowMessage Failure (Lit ''Content generation is taking longer than expected. Please refresh the page to check status.'')]"
    and ui: "buttonContainer ?res = GenerateButton" "statusTarget ?res = StatusReady"
    by auto
  have "(100::nat) = Suc 99" by simp
  then have "replicate 100 ?r = ?r # replicate 99 ?r" by (simp only: replicate_Suc)
  with ev have sent: "requests (events ?res) = replicate 100 ?r" by simp
  from ev have waits: "delays (events ?res) = 2000 # replicate 99 3000" by simp
  from ev sent waits ui show ?thesis by blast
qed

lemma first_visit_run:
  "events first_visit = [SetTimeout 2000, Fetch (TaskStatus (Some (JStr ''t1'')))]"
  "localStorage first_visit = [taskKey 7 \<mapsto> stored_task]"
  by (simp_all add: first_visit_def connect_task_def checkForOngoingTask_def task_controller_stored_def
      task_controller_example_def runtime_example_def stored_task_def started_recently_def
      elapsedMinutes_def pollTaskStatus_def poll.simps fetch_eq Let_def server_queued_first_def
      show_generating_def emit_def initialDelay_def)

lemma second_visit_resumes:
  "second_visit = pollTaskStatus runtime_example server_queued_first (Some (JStr ''t1''))
     (show_generating ((reloaded first_visit)\<lparr>pollingTimeoutId := False\<rparr>))"
  by (simp add: second_visit_def connect_task_def checkForOngoingTask_def reloaded_def first_visit_run
      task_controller_example_def runtime_example_def stored_task_def started_recently_def
      elapsedMinutes_def)

text \<open>
  C6 as stated fails for a task that is resumed. The task \<^verbatim>\<open>t1\<close> is stored. On a first visit,
  one minute after the task started, the only poll is answered with a status the
  controller does not know: polling stops and the entry stays. The page is loaded again a
  minute later: \<^verbatim>\<open>connect\<close> resumes the task with a count that starts at zero, and the task
  is polled a hundred times more, 101 status requests in all.
\<close>

theorem pollTaskStatus_counterexample:
  "localStorage first_visit ''blog_generation_task_7'' = Some stored_task
   \<and> requests (events first_visit) = [TaskStatus (Some (JStr ''t1''))]
   \<and> requests (events second_visit) = replicate 101 (TaskStatus (Some (JStr ''t1'')))"
proof -
  let ?r = "TaskStatus (Some (JStr ''t1''))"
  let ?st = "show_generating ((reloaded first_visit)\<lparr>pollingTimeoutId := False\<rparr>)"
  have before: "requests (events ?st) = [?r]"
    by (simp add: reloaded_def first_visit_run show_generating_def)
  from pollTaskStatus_run [of runtime_example server_queued_first "Some (JStr ''t1'')" ?st]
  obtain k fin where bound: "k < 100"
    and ev: "events second_visit = events ?st @ SetTimeout 2000 # Fetch ?r
              # concat (replicate k [SetTimeout 3000, Fetch ?r]) @ fin"
    and fin: "fin = [] \<or> (\<exists>l t. fin = [ShowMessage l t])"
    and still: "still_processing (server_queued_first (requests (events second_visit))) \<longrightarrow> k = 99"
    unfolding second_visit_resumes by blast
  from fin have "requests fin = []" by auto
  with ev before have sent: "requests (events second_visit) = ?r # ?r # replicate k ?r" by simp
  then have "still_processing (server_queued_first (requests (events second_visit)))"
    by (simp add: server_queued_first_def still_processing_def processing_body_def)
  with still have "k = 99" by simp
  with sent have "requests (events second_visit) = ?r # ?r # replicate 99 ?r" by simp
  moreover have "replicate 101 ?r = ?r # ?r # replicate 99 ?r"
  proof -
    have "(101::nat) = Suc (Suc 99)" by simp
    then show ?thesis by (simp only: replicate_Suc)
  qed
  ultimately have "requests (events second_visit) = replicate 101 ?r" by simp
  moreover have "localStorage first_visit ''blog_generation_task_7'' = Some stored_task"
    by (simp add: first_visit_run taskKey_def digits_7)
  moreover have "requests (events first_visit) = [?r]" by (simp add: first_visit_run)
  ultimately show ?thesis by simp
qed

lemma localStorage_appendPostButton [simp]:
  "localStorage (snd (appendPostButton rt p st)) = localStorage st"
  by (simp add: appendPostButton_def Let_def split: option.splits)

lemma buttonContainer_appendPostButton [simp]:
  "buttonContainer (snd (appendPostButton rt p st)) = buttonContainer st"
  by (simp add: appendPostButton_def Let_def split: option.splits)

lemma updateToCompletedState_result:
  assumes "updateToCompletedState rt p st = (r, st2)"
  shows "localStorage st2 (taskKey (suggestionIdValue st)) = None"
    and "buttonContainer st2 = ViewPostLink (projectIdValue st) p"
proof -
  let ?st2 = "(removeItem (taskKey (suggestionIdValue st)) st)
     \<lparr>buttonContainer := ViewPostLink (projectIdValue (removeItem (taskKey (suggestionIdValue st)) st)) p,
       statusTarget := (if hasStatusTarget (removeItem (taskKey (suggestionIdValue st)) st) then StatusGenerated
          else statusTarget (removeItem (taskKey (suggestionIdValue st)) st))\<rparr>"
  have ls: "localStorage (snd (appendPostButton rt p ?st2)) (taskKey (suggestionIdValue st)) = None"
    by (simp only: localStorage_appendPostButton) (simp add: removeItem_def)
  have bt: "buttonContainer (snd (appendPostButton rt p ?st2)) = ViewPostLink (projectIdValue st) p"
    by (simp only: buttonContainer_appendPostButton) (simp add: removeItem_def)
  from assms ls show "localStorage st2 (taskKey (suggestionIdValue st)) = None"
    by (cases "appendPostButton rt p ?st2")
       (auto simp: updateToCompletedState_def Let_def showMessage_def emit_def split: option.splits)
  from assms bt show "buttonContainer st2 = ViewPostLink (projectIdValue st) p"
    by (cases "appendPostButton rt p ?st2")
       (auto simp: updateToCompletedState_def Let_def showMessage_def emit_def split: option.splits)
qed

lemma poll_caught_removes:
  "suggestionIdValue st = sid \<Longrightarrow> localStorage (poll_caught e st) (taskKey sid) = None"
  by (simp add: poll_caught_def showMessage_def resetToInitialState_def removeItem_def emit_def Let_def)

lemma suggestionIdValue_updateToCompletedState:
  assumes "updateToCompletedState rt p st = (r, st2)"
  shows "suggestionIdValue st2 = suggestionIdValue st"
  using assms
  by (auto simp: updateToCompletedState_def Let_def appendPostButton_def showMessage_def emit_def
      removeItem_def split: option.splits if_splits)

lemma poll_settled_terminal:
  assumes "\<not> still_processing (srv (requests (events st) @ [TaskStatus taskId]))"
  shows "localStorage (poll rt srv taskId a st) (taskKey (suggestionIdValue st)) = None
       \<or> buttonContainer (poll rt srv taskId a st) = buttonContainer st"
  using assms
  by (subst (1 2) poll.simps)
     (auto simp: still_processing_def fetch_eq Let_def poll_caught_removes
           dest: updateToCompletedState_result(1) suggestionIdValue_updateToCompletedState
           split: response.splits option.splits json.splits prod.splits)

lemma poll_terminal:
  "localStorage (poll rt srv taskId a st) (taskKey (suggestionIdValue st)) = None
   \<or> buttonContainer (poll rt srv taskId a st) = buttonContainer st"
proof (induction "maxAttempts - a" arbitrary: a st rule: less_induct)
  case less
  let ?r = "TaskStatus taskId"
  show ?case
  proof (cases "still_processing (srv (requests (events st) @ [?r]))")
    case False
    then show ?thesis by (rule poll_settled_terminal)
  next
    case True
    show ?thesis
    proof (cases "a + 1 < maxAttempts")
      case False
      have "poll rt srv taskId a st = poll_caught (Lit limit_text) (emit (Fetch ?r) st)"
        by (rule poll_exhausted [where srv = srv and st = st and taskId = taskId and rt = rt and a = a,
              OF True False])
      then show ?thesis by (simp add: poll_caught_removes)
    next
      case next_poll: True
      let ?st' = "(emit (SetTimeout pollInterval) (show_elapsed (a + 1) (emit (Fetch ?r) st)))
                    \<lparr>pollingTimeoutId := True\<rparr>"
      have res: "poll rt srv taskId a st = poll rt srv taskId (a + 1) ?st'"
        by (rule poll_continue [where srv = srv and st = st and taskId = taskId and rt = rt and a = a,
              OF True next_poll])
      have "maxAttempts - (a + 1) < maxAttempts - a" using next_poll by simp
      from less.hyps [OF this, of ?st'] show ?thesis by (simp add: res)
    qed
  qed
qed

lemma pollTaskStatus_terminal:
  "localStorage (pollTaskStatus rt srv taskId st) (taskKey (suggestionIdValue st)) = None
   \<or> buttonContainer (pollTaskStatus rt srv taskId st) = buttonContainer st"
  using poll_terminal [of rt srv taskId 0 "(emit (SetTimeout initialDelay) st)\<lparr>pollingTimeoutId := True\<rparr>"]
  by (simp add: pollTaskStatus_def)

lemma generate_caught_removes:
  "suggestionIdValue st = sid \<Longrightarrow> localStorage (generate_caught e st) (taskKey sid) = None"
  by (simp add: generate_caught_def showMessage_def resetToInitialState_def removeItem_def emit_def Let_def)

lemma frame_show_generating [simp]:
  "events (show_generating st) = events st"
  "localStorage (show_generating st) = localStorage st"
  "suggestionIdValue (show_generating st) = suggestionIdValue st"
  "hasStatusTarget (show_generating st) = hasStatusTarget st"
  "buttonContainer (show_generating st) = GeneratingButton"
  by (simp_all add: show_generating_def)

lemma generate_task_terminal:
  "localStorage (generate_task rt now srv st) (taskKey (suggestionIdValue st)) = None
   \<or> buttonContainer (generate_task rt now srv st) = GeneratingButton"
proof -
  let ?st1 = "emit (Fetch (GenerateBlogContent (suggestionIdValue st))) (show_generating st)"
  have caught: "localStorage (generate_caught e ?st1) (taskKey (suggestionIdValue st)) = None" for e
    by (rule generate_caught_removes) simp
  have polled: "localStorage (pollTaskStatus rt srv tid
            (showMessage m Success (setItem (taskKey (suggestionIdValue st)) v ?st1)))
          (taskKey (suggestionIdValue st)) = None
        \<or> buttonContainer (pollTaskStatus rt srv tid
            (showMessage m Success (setItem (taskKey (suggestionIdValue st)) v ?st1))) = GeneratingButton"
    for tid m v
    using pollTaskStatus_terminal
      [of rt srv tid "showMessage m Success (setItem (taskKey (suggestionIdValue st)) v ?st1)"]
    by (simp add: showMessage_def setItem_def emit_def)
  show ?thesis
    unfolding generate_task_def fetch_eq
    by (auto simp: Let_def caught split: response.splits option.splits json.splits
        intro: polled [THEN disjE])
qed

lemma poll_stops_silently:
  assumes "status_unrecognised (srv (requests (events st) @ [TaskStatus taskId]))"
  shows "poll rt srv taskId a st = emit (Fetch (TaskStatus taskId)) st"
  using assms
  by (subst poll.simps)
     (auto simp: status_unrecognised_def fetch_eq Let_def split: response.splits option.splits json.splits)

lemma poll_completes:
  assumes "task_completed (srv (requests (events st) @ [TaskStatus taskId]))"
  shows "\<exists>p. poll rt srv taskId a st
           = (case updateToCompletedState rt p (emit (Fetch (TaskStatus taskId)) st) of
                (Some e, st2) \<Rightarrow> poll_caught e st2
              | (None, st2) \<Rightarrow> st2)"
  using assms
  by (subst poll.simps)
     (auto simp: task_completed_def fetch_eq Let_def split: response.splits option.splits json.splits)

lemma poll_fails:
  assumes "\<not> still_processing (srv (requests (events st) @ [TaskStatus taskId]))"
    and "\<not> task_completed (srv (requests (events st) @ [TaskStatus taskId]))"
    and "\<not> status_unrecognised (srv (requests (events st) @ [TaskStatus taskId]))"
  shows "\<exists>e. poll rt srv taskId a st = poll_caught e (emit (Fetch (TaskStatus taskId)) st)"
  using assms
  by (subst poll.simps)
     (auto simp: still_processing_def task_completed_def status_unrecognised_def fetch_eq Let_def
           split: response.splits option.splits json.splits)


lemma still_processing_recognised:
  "still_processing resp \<Longrightarrow> \<not> status_unrecognised resp \<and> \<not> task_completed resp"
  by (auto simp: still_processing_def status_unrecognised_def task_completed_def
      split: response.splits option.splits)

lemma task_completed_recognised: "task_completed resp \<Longrightarrow> \<not> status_unrecognised resp"
  by (auto simp: status_unrecognised_def task_completed_def split: response.splits option.splits)

lemma frame_projectIdValue [simp]:
  "projectIdValue (emit e st) = projectIdValue st"
  "projectIdValue (show_elapsed a st) = projectIdValue st"
  by (simp_all add: emit_def show_elapsed_def)

lemma poll_settled_requests:
  assumes "\<not> still_processing (srv (requests (events st) @ [TaskStatus taskId]))"
  shows "requests (events (poll rt srv taskId a st)) = requests (events st) @ [TaskStatus taskId]"
proof -
  from poll_settled [where srv = srv and st = st and taskId = taskId and rt = rt and a = a, OF assms]
  obtain fin where "events (poll rt srv taskId a st) = events st @ Fetch (TaskStatus taskId) # fin"
    and "fin = [] \<or> (\<exists>l t. fin = [ShowMessage l t])" by blast
  then show ?thesis by auto
qed

lemma completed_state_outcome:
  assumes "res = (case updateToCompletedState rt p st of
                    (Some e, st2) \<Rightarrow> poll_caught e st2
                  | (None, st2) \<Rightarrow> st2)"
  shows "localStorage res (taskKey (suggestionIdValue st)) = None
       \<and> (buttonContainer res = ViewPostLink (projectIdValue st) p \<or> buttonContainer res = GenerateButton)"
proof -
  obtain r st2 where run: "updateToCompletedState rt p st = (r, st2)"
    by (cases "updateToCompletedState rt p st")
  note after = updateToCompletedState_result [OF run] suggestionIdValue_updateToCompletedState [OF run]
  show ?thesis
  proof (cases r)
    case None
    with assms run after show ?thesis by simp
  next
    case (Some e)
    with assms run have "res = poll_caught e st2" by simp
    with after(3) show ?thesis by (simp add: poll_caught_removes)
  qed
qed

lemma poll_outcome:
  assumes "a < maxAttempts"
  shows "(status_unrecognised (srv (requests (events (poll rt srv taskId a st))))
            \<longrightarrow> localStorage (poll rt srv taskId a st) = localStorage st
              \<and> buttonContainer (poll rt srv taskId a st) = buttonContainer st)
       \<and> (\<not> status_unrecognised (srv (requests (events (poll rt srv taskId a st))))
            \<longrightarrow> localStorage (poll rt srv taskId a st) (taskKey (suggestionIdValue st)) = None
              \<and> (task_completed (srv (requests (events (poll rt srv taskId a st))))
                   \<longrightarrow> (\<exists>p. buttonContainer (poll rt srv taskId a st) = ViewPostLink (projectIdValue st) p)
                       \<or> buttonContainer (poll rt srv taskId a st) = GenerateButton)
              \<and> (\<not> task_completed (srv (requests (events (poll rt srv taskId a st))))
                   \<longrightarrow> buttonContainer (poll rt srv taskId a st) = GenerateButton))"
  using assms
proof (induction "maxAttempts - a" arbitrary: a st rule: less_induct)
  case less
  let ?r = "TaskStatus taskId"
  let ?res = "poll rt srv taskId a st"
  let ?ans = "srv (requests (events st) @ [?r])"
  let ?st1 = "emit (Fetch ?r) st"
  show ?case
  proof (cases "still_processing ?ans")
    case False
    from poll_settled_requests [where srv = srv and st = st and taskId = taskId and rt = rt and a = a, OF False]
    have last: "srv (requests (events ?res)) = ?ans" by simp
    show ?thesis
    proof (cases "status_unrecognised ?ans")
      case True
      from poll_stops_silently [where srv = srv and st = st and taskId = taskId and rt = rt and a = a, OF True]
      have "?res = ?st1" .
      with True last show ?thesis by simp
    next
      case recognised: False
      show ?thesis
      proof (cases "task_completed ?ans")
        case True
        from poll_completes [where srv = srv and st = st and taskId = taskId and rt = rt and a = a, OF True]
        obtain p where "?res = (case updateToCompletedState rt p ?st1 of
                (Some e, st2) \<Rightarrow> poll_caught e st2
              | (None, st2) \<Rightarrow> st2)" by blast
        from completed_state_outcome [OF this]
        have "localStorage ?res (taskKey (suggestionIdValue st)) = None"
          and "buttonContainer ?res = ViewPostLink (projectIdValue st) p \<or> buttonContainer ?res = GenerateButton"
          by simp_all
        with True recognised last show ?thesis by auto
      next
        case failed: False
        from poll_fails [where srv = srv and st = st and taskId = taskId and rt = rt and a = a,
            OF False failed recognised]
        obtain e where "?res = poll_caught e ?st1" by blast
        then have "localStorage ?res (taskKey (suggestionIdValue st)) = None"
          and "buttonContainer ?res = GenerateButton"
          by (simp_all add: poll_caught_removes)
        with failed recognised last show ?thesis by simp
      qed
    qed
  next
    case True
    note known = still_processing_recognised [OF True]
    show ?thesis
    proof (cases "a + 1 < maxAttempts")
      case False
      have res: "?res = poll_caught (Lit limit_text) ?st1"
        by (rule poll_exhausted [where srv = srv and st = st and taskId = taskId and rt = rt and a = a,
              OF True False])
      then have "requests (events ?res) = requests (events st) @ [?r]" by simp
      then have last: "srv (requests (events ?res)) = ?ans" by simp
      from res have "localStorage ?res (taskKey (suggestionIdValue st)) = None"
        and "buttonContainer ?res = GenerateButton"
        by (simp_all add: poll_caught_removes)
      with known last show ?thesis by simp
    next
      case next_poll: True
      let ?st' = "(emit (SetTimeout pollInterval) (show_elapsed (a + 1) ?st1))
                    \<lparr>pollingTimeoutId := True\<rparr>"
      have res: "?res = poll rt srv taskId (a + 1) ?st'"
        by (rule poll_continue [where srv = srv and st = st and taskId = taskId and rt = rt and a = a,
              OF True next_poll])
      have "maxAttempts - (a + 1) < maxAttempts - a" using next_poll by simp
      from less.hyps [OF this next_poll, of ?st'] show ?thesis by (simp add: res)
    qed
  qed
qed

lemma pollTaskStatus_outcome:
  "(status_unrecognised (srv (requests (events (pollTaskStatus rt srv taskId st))))
            \<longrightarrow> localStorage (pollTaskStatus rt srv taskId st) = localStorage st
              \<and> buttonContainer (pollTaskStatus rt srv taskId st) = buttonContainer st)
       \<and> (\<not> status_unrecognised (srv (requests (events (pollTaskStatus rt srv taskId st))))
            \<longrightarrow> localStorage (pollTaskStatus rt srv taskId st) (taskKey (suggestionIdValue st)) = None
              \<and> (task_completed (srv (requests (events (pollTaskStatus rt srv taskId st))))
                   \<longrightarrow> (\<exists>p. buttonContainer (pollTaskStatus rt srv taskId st) = ViewPostLink (projectIdValue st) p)
                       \<or> buttonContainer (pollTaskStatus rt srv taskId st) = GenerateButton)
              \<and> (\<not> task_completed (srv (requests (events (pollTaskStatus rt srv taskId st))))
                   \<longrightarrow> buttonContainer (pollTaskStatus rt srv taskId st) = GenerateButton))"
proof -
  have "(0::nat) < maxAttempts" by (simp add: maxAttempts_def)
  from poll_outcome [OF this, of srv rt taskId "(emit (SetTimeout initialDelay) st)\<lparr>pollingTimeoutId := True\<rparr>"]
  show ?thesis by (simp add: pollTaskStatus_def)
qed


lemma generate_task_not_queued:
  assumes "\<not> task_queued (srv (requests (events st) @ [GenerateBlogContent (suggestionIdValue st)]))"
  shows "\<exists>e. generate_task rt now srv st
           = generate_caught e (emit (Fetch (GenerateBlogContent (suggestionIdValue st))) (show_generating st))"
  using assms
  by (auto simp: generate_task_def task_queued_def fetch_eq Let_def
      split: response.splits option.splits json.splits)

lemma generate_task_queued:
  assumes "task_queued (srv (requests (events st) @ [GenerateBlogContent (suggestionIdValue st)]))"
  shows "\<exists>tid m v. generate_task rt now srv st
           = pollTaskStatus rt srv tid
               (showMessage m Success
                  (setItem (taskKey (suggestionIdValue st)) v
                     (emit (Fetch (GenerateBlogContent (suggestionIdValue st))) (show_generating st))))"
  using assms
  by (auto simp: generate_task_def task_queued_def fetch_eq Let_def
      split: response.splits option.splits json.splits)

lemma generate_caught_result:
  "suggestionIdValue st = sid \<Longrightarrow> localStorage (generate_caught e st) (taskKey sid) = None"
  "buttonContainer (generate_caught e st) = GenerateButton"
  by (simp_all add: generate_caught_def showMessage_def resetToInitialState_def removeItem_def emit_def Let_def)

lemma generate_task_outcome:
  "(\<not> task_queued (srv (requests (events st) @ [GenerateBlogContent (suggestionIdValue st)]))
      \<longrightarrow> localStorage (generate_task rt now srv st) (taskKey (suggestionIdValue st)) = None
        \<and> buttonContainer (generate_task rt now srv st) = GenerateButton)
   \<and> (task_queued (srv (requests (events st) @ [GenerateBlogContent (suggestionIdValue st)]))
      \<longrightarrow> (status_unrecognised (last_answer srv (generate_task rt now srv st))
              \<longrightarrow> localStorage (generate_task rt now srv st) (taskKey (suggestionIdValue st)) \<noteq> None
                \<and> buttonContainer (generate_task rt now srv st) = GeneratingButton)
        \<and> (\<not> status_unrecognised (last_answer srv (generate_task rt now srv st))
              \<longrightarrow> localStorage (generate_task rt now srv st) (taskKey (suggestionIdValue st)) = None
                \<and> (task_completed (last_answer srv (generate_task rt now srv st))
                     \<longrightarrow> (\<exists>p. buttonContainer (generate_task rt now srv st) = ViewPostLink (projectIdValue st) p)
                         \<or> buttonContainer (generate_task rt now srv st) = GenerateButton)
                \<and> (\<not> task_completed (last_answer srv (generate_task rt now srv st))
                     \<longrightarrow> buttonContainer (generate_task rt now srv st) = GenerateButton)))"
proof (cases "task_queued (srv (requests (events st) @ [GenerateBlogContent (suggestionIdValue st)]))")
  case False
  from generate_task_not_queued [where srv = srv and st = st and rt = rt and now = now, OF False] obtain e where
    "generate_task rt now srv st
       = generate_caught e (emit (Fetch (GenerateBlogContent (suggestionIdValue st))) (show_generating st))"
    by blast
  with False show ?thesis by (simp add: generate_caught_result)
next
  case True
  from generate_task_queued [where srv = srv and st = st and rt = rt and now = now, OF True] obtain tid m v where
    res: "generate_task rt now srv st
       = pollTaskStatus rt srv tid
           (showMessage m Success
              (setItem (taskKey (suggestionIdValue st)) v
                 (emit (Fetch (GenerateBlogContent (suggestionIdValue st))) (show_generating st))))"
    by blast
  let ?st2 = "showMessage m Success
              (setItem (taskKey (suggestionIdValue st)) v
                 (emit (Fetch (GenerateBlogContent (suggestionIdValue st))) (show_generating st)))"
  have frame: "suggestionIdValue ?st2 = suggestionIdValue st" "projectIdValue ?st2 = projectIdValue st"
    "buttonContainer ?st2 = GeneratingButton"
    "localStorage ?st2 (taskKey (suggestionIdValue st)) = Some v"
    by (simp_all add: showMessage_def setItem_def emit_def show_generating_def)
  from pollTaskStatus_outcome [of srv rt tid ?st2] True frame show ?thesis
    unfolding res last_answer_def by simp
qed


text \<open>
  C9. Both terminal transitions remove the task's entry: \<^verbatim>\<open>_updateToCompletedState\<close> (completion),
  whether or not it gets to its end, and \<^verbatim>\<open>_resetToInitialState\<close>. And every run takes one of
  them, but for one case. A poll, resumed on connect or started by \<^verbatim>\<open>generate\<close>, ends on
  the answer to its last request. Unless that answer is ok with a status the controller
  does not know, the entry \<^verbatim>\<open>blog_generation_task_<suggestionId>\<close> is not in \<^verbatim>\<open>localStorage\<close>
  afterwards: when the answer says \<^verbatim>\<open>completed\<close> the button is the link to the post (or the
  Generate button, when showing the post button threw), and in every other case (a failure
  or an error the poll reports, a response that is not ok or not JSON, a request that is
  rejected, the hundredth poll still \<^verbatim>\<open>processing\<close>) the button is the Generate button
  again. When \<^verbatim>\<open>generate\<close>'s own request does not queue a task, the entry is not there
  afterwards and the button is the Generate button. The case left is the status the
  controller does not know: the poll stops without a transition, the button stays the
  Generating button and the entry stays. So whenever the button is no longer the
  Generating button, the entry is gone.
\<close>

theorem terminal_transitions_remove_task:
  "localStorage (snd (updateToCompletedState rt postId st)) (taskKey (suggestionIdValue st)) = None
   \<and> localStorage (resetToInitialState st) (taskKey (suggestionIdValue st)) = None
   \<and> (\<not> status_unrecognised (last_answer srv (pollTaskStatus rt srv taskId (show_generating st)))
        \<longrightarrow> localStorage (pollTaskStatus rt srv taskId (show_generating st)) (taskKey (suggestionIdValue st)) = None
          \<and> (task_completed (last_answer srv (pollTaskStatus rt srv taskId (show_generating st)))
               \<longrightarrow> (\<exists>p. buttonContainer (pollTaskStatus rt srv taskId (show_generating st))
                          = ViewPostLink (projectIdValue st) p)
                   \<or> buttonContainer (pollTaskStatus rt srv taskId (show_generating st)) = GenerateButton)
          \<and> (\<not> task_completed (last_answer srv (pollTaskStatus rt srv taskId (show_generating st)))
               \<longrightarrow> buttonContainer (pollTaskStatus rt srv taskId (show_generating st)) = GenerateButton))
   \<and> (status_unrecognised (last_answer srv (pollTaskStatus rt srv taskId (show_generating st)))
        \<longrightarrow> localStorage (pollTaskStatus rt srv taskId (show_generating st)) = localStorage st
          \<and> buttonContainer (pollTaskStatus rt srv taskId (show_generating st)) = GeneratingButton)
   \<and> (\<not> task_queued (srv (requests (events st) @ [GenerateBlogContent (suggestionIdValue st)]))
        \<longrightarrow> localStorage (generate_task rt now srv st) (taskKey (suggestionIdValue st)) = None
          \<and> buttonContainer (generate_task rt now srv st) = GenerateButton)
   \<and> (task_queued (srv (requests (events st) @ [GenerateBlogContent (suggestionIdValue st)]))
        \<and> \<not> status_unrecognised (last_answer srv (generate_task rt now srv st))
        \<longrightarrow> localStorage (generate_task rt now srv st) (taskKey (suggestionIdValue st)) = None
          \<and> (task_completed (last_answer srv (generate_task rt now srv st))
               \<longrightarrow> (\<exists>p. buttonContainer (generate_task rt now srv st) = ViewPostLink (projectIdValue st) p)
                   \<or> buttonContainer (generate_task rt now srv st) = GenerateButton)
          \<and> (\<not> task_completed (last_answer srv (generate_task rt now srv st))
               \<longrightarrow> buttonContainer (generate_task rt now srv st) = GenerateButton))
   \<and> (task_queued (srv (requests (events st) @ [GenerateBlogContent (suggestionIdValue st)]))
        \<and> status_unrecognised (last_answer srv (generate_task rt now srv st))
        \<longrightarrow> localStorage (generate_task rt now srv st) (taskKey (suggestionIdValue st)) \<noteq> None
          \<and> buttonContainer (generate_task rt now srv st) = GeneratingButton)
   \<and> (buttonContainer (generate_task rt now srv st) \<noteq> GeneratingButton
        \<longrightarrow> localStorage (generate_task rt now srv st) (taskKey (suggestionIdValue st)) = None)
   \<and> (buttonContainer (pollTaskStatus rt srv taskId (show_generating st)) \<noteq> GeneratingButton
        \<longrightarrow> localStorage (pollTaskStatus rt srv taskId (show_generating st)) (taskKey (suggestionIdValue st)) = None)"
proof -
  have completed: "localStorage (snd (updateToCompletedState rt postId st)) (taskKey (suggestionIdValue st)) = None"
    by (rule updateToCompletedState_result(1) [of rt postId st "fst (updateToCompletedState rt postId st)"]) simp
  have reset: "localStorage (resetToInitialState st) (taskKey (suggestionIdValue st)) = None"
    by simp
  have frame: "localStorage (show_generating st) = localStorage st"
    "suggestionIdValue (show_generating st) = suggestionIdValue st"
    "projectIdValue (show_generating st) = projectIdValue st"
    "buttonContainer (show_generating st) = GeneratingButton"
    by (simp_all add: show_generating_def)
  note resumed = pollTaskStatus_outcome [of srv rt taskId "show_generating st", folded last_answer_def,
      unfolded frame]
  note started = generate_task_outcome [of srv st rt now]
  have resumed_left: "buttonContainer (pollTaskStatus rt srv taskId (show_generating st)) \<noteq> GeneratingButton
      \<longrightarrow> localStorage (pollTaskStatus rt srv taskId (show_generating st)) (taskKey (suggestionIdValue st)) = None"
    using pollTaskStatus_terminal [of rt srv taskId "show_generating st"] by (auto simp: frame)
  have started_left: "buttonContainer (generate_task rt now srv st) \<noteq> GeneratingButton
      \<longrightarrow> localStorage (generate_task rt now srv st) (taskKey (suggestionIdValue st)) = None"
    using generate_task_terminal [of rt now srv st] by auto
  from resumed have r1: "\<not> status_unrecognised (last_answer srv (pollTaskStatus rt srv taskId (show_generating st)))
        \<longrightarrow> localStorage (pollTaskStatus rt srv taskId (show_generating st)) (taskKey (suggestionIdValue st)) = None
          \<and> (task_completed (last_answer srv (pollTaskStatus rt srv taskId (show_generating st)))
               \<longrightarrow> (\<exists>p. buttonContainer (pollTaskStatus rt srv taskId (show_generating st))
                          = ViewPostLink (projectIdValue st) p)
                   \<or> buttonContainer (pollTaskStatus rt srv taskId (show_generating st)) = GenerateButton)
          \<and> (\<not> task_completed (last_answer srv (pollTaskStatus rt srv taskId (show_generating st)))
               \<longrightarrow> buttonContainer (pollTaskStatus rt srv taskId (show_generating st)) = GenerateButton)"
    by (rule conjunct2)
  from resumed have r2: "status_unrecognised (last_answer srv (pollTaskStatus rt srv taskId (show_generating st)))
        \<longrightarrow> localStorage (pollTaskStatus rt srv taskId (show_generating st)) = localStorage st
          \<and> buttonContainer (pollTaskStatus rt srv taskId (show_generating st)) = GeneratingButton"
    by (rule conjunct1)
  from started have g1: "\<not> task_queued (srv (requests (events st) @ [GenerateBlogContent (suggestionIdValue st)]))
        \<longrightarrow> localStorage (generate_task rt now srv st) (taskKey (suggestionIdValue st)) = None
          \<and> buttonContainer (generate_task rt now srv st) = GenerateButton"
    by (rule conjunct1)
  from started have g2: "task_queued (srv (requests (events st) @ [GenerateBlogContent (suggestionIdValue st)]))
        \<and> \<not> status_unrecognised (last_answer srv (generate_task rt now srv st))
        \<longrightarrow> localStorage (generate_task rt now srv st) (taskKey (suggestionIdValue st)) = None
          \<and> (task_completed (last_answer srv (generate_task rt now srv st))
               \<longrightarrow> (\<exists>p. buttonContainer (generate_task rt now srv st) = ViewPostLink (projectIdValue st) p)
                   \<or> buttonContainer (generate_task rt now srv st) = GenerateButton)
          \<and> (\<not> task_completed (last_answer srv (generate_task rt now srv st))
               \<longrightarrow> buttonContainer (generate_task rt now srv st) = GenerateButton)"
    by blast
  from started have g3: "task_queued (srv (requests (events st) @ [GenerateBlogContent (suggestionIdValue st)]))
        \<and> status_unrecognised (last_answer srv (generate_task rt now srv st))
        \<longrightarrow> localStorage (generate_task rt now srv st) (taskKey (suggestionIdValue st)) \<noteq> None
          \<and> buttonContainer (generate_task rt now srv st) = GeneratingButton"
    by blast
  from completed reset r1 r2 g1 g2 g3 started_left resumed_left show ?thesis
    by (intro conjI)
qed

lemma generate_completing:
  "buttonContainer (generate_task runtime_example 1000 server_completing task_controller_example)
     = ViewPostLink 3 (Some (JNum 42))"
  by (simp add: generate_task_def fetch_eq pollTaskStatus_def poll.simps Let_def
      server_completing_def processing_body_def task_controller_example_def show_generating_def
      showMessage_def setItem_def emit_def maxAttempts_def show_elapsed_def
      updateToCompletedState_def removeItem_def appendPostButton_def read_settings_def)

lemma example_servers_recognised:
  "\<not> status_unrecognised (server_completing rs)"
  "\<not> status_unrecognised (server_task_fails rs)" "\<not> task_completed (server_task_fails rs)"
  "\<not> status_unrecognised (server_processing rs)" "\<not> task_completed (server_processing rs)"
  by (simp_all add: status_unrecognised_def task_completed_def server_completing_def
      server_task_fails_def server_processing_def processing_body_def)

lemma example_servers_queued:
  "task_queued (server_completing [GenerateBlogContent 7])"
  "task_queued (server_task_fails [GenerateBlogContent 7])"
  "\<not> task_queued (server_ok [GenerateBlogContent 7])"
  by (simp_all add: task_queued_def server_completing_def server_task_fails_def processing_body_def)

theorem terminal_transitions_remove_task_witness:
  "localStorage (generate_task runtime_example 1000 server_completing task_controller_example)
        ''blog_generation_task_7'' = None
   \<and> buttonContainer (generate_task runtime_example 1000 server_completing task_controller_example)
     = ViewPostLink 3 (Some (JNum 42))
   \<and> localStorage (generate_task runtime_example 1000 server_task_fails task_controller_example)
        ''blog_generation_task_7'' = None
   \<and> buttonContainer (generate_task runtime_example 1000 server_task_fails task_controller_example)
     = GenerateButton
   \<and> localStorage task_controller_stored ''blog_generation_task_7'' = Some stored_task
   \<and> localStorage (pollTaskStatus runtime_example server_processing (Some (JStr ''t1''))
                     (show_generating task_controller_stored)) ''blog_generation_task_7'' = None
   \<and> buttonContainer (pollTaskStatus runtime_example server_processing (Some (JStr ''t1''))
                     (show_generating task_controller_stored)) = GenerateButton
   \<and> localStorage (generate_task runtime_example 1000 server_ok task_controller_stored)
        ''blog_generation_task_7'' = None
   \<and> buttonContainer (generate_task runtime_example 1000 server_ok task_controller_stored)
     = GenerateButton"
proof -
  have key: "taskKey 7 = ''blog_generation_task_7''"
    by (simp add: taskKey_def digits_7)
  have idle: "requests (events task_controller_example) = []" "suggestionIdValue task_controller_example = 7"
    "requests (events task_controller_stored) = []" "suggestionIdValue task_controller_stored = 7"
    by (simp_all add: task_controller_stored_def task_controller_example_def)
  have stored: "localStorage task_controller_stored ''blog_generation_task_7'' = Some stored_task"
    by (simp add: task_controller_stored_def task_controller_example_def taskKey_def digits_7)
  from terminal_transitions_remove_task
    [of runtime_example "Some (JNum 42)" task_controller_example server_completing "Some (JStr ''t1'')" 1000]
  have completion: "localStorage (generate_task runtime_example 1000 server_completing task_controller_example)
        ''blog_generation_task_7'' = None"
    by (simp add: key idle last_answer_def example_servers_recognised example_servers_queued)
  from terminal_transitions_remove_task
    [of runtime_example "Some (JNum 42)" task_controller_example server_task_fails "Some (JStr ''t1'')" 1000]
  have failure: "localStorage (generate_task runtime_example 1000 server_task_fails task_controller_example)
        ''blog_generation_task_7'' = None
     \<and> buttonContainer (generate_task runtime_example 1000 server_task_fails task_controller_example)
        = GenerateButton"
    by (simp add: key idle last_answer_def example_servers_recognised example_servers_queued)
  from terminal_transitions_remove_task
    [of runtime_example "Some (JNum 42)" task_controller_stored server_processing "Some (JStr ''t1'')" 1000]
  have limit: "localStorage (pollTaskStatus runtime_example server_processing (Some (JStr ''t1''))
                     (show_generating task_controller_stored)) ''blog_generation_task_7'' = None
     \<and> buttonContainer (pollTaskStatus runtime_example server_processing (Some (JStr ''t1''))
                     (show_generating task_controller_stored)) = GenerateButton"
    by (simp add: key idle last_answer_def example_servers_recognised)
  from terminal_transitions_remove_task
    [of runtime_example "Some (JNum 42)" task_controller_stored server_ok "Some (JStr ''t1'')" 1000]
  have refused: "localStorage (generate_task runtime_example 1000 server_ok task_controller_stored)
        ''blog_generation_task_7'' = None
     \<and> buttonContainer (generate_task runtime_example 1000 server_ok task_controller_stored)
        = GenerateButton"
    using example_servers_queued(3) by (simp add: key idle)
  from completion failure limit refused stored generate_completing show ?thesis by simp
qed

lemma elapsed_under_ten: "elapsedMinutes now t < 10 \<longleftrightarrow> now - t < 600000"
proof -
  have "elapsedMinutes now t < 10 \<longleftrightarrow> (of_int (now - t) :: rat) < 600000"
    by (simp add: elapsedMinutes_def field_simps)
  also have "\<dots> \<longleftrightarrow> now - t < 600000"
    using of_int_less_iff [of "now - t" 600000, where 'a = rat] by simp
  finally show ?thesis .
qed

lemma started_recently_iff:
  "started_recently now start \<longleftrightarrow> (\<exists>t. start = Some t \<and> now - t < 600000)"
  by (cases start) (simp_all add: started_recently_def elapsed_under_ten)

lemma pollTaskStatus_starts:
  "\<exists>rest. events (pollTaskStatus rt srv taskId st)
           = events st @ SetTimeout 2000 # Fetch (TaskStatus taskId) # rest"
  using pollTaskStatus_run [of rt srv taskId st] by blast

text \<open>
  C5, as amended. On connect, for an entry under \<^verbatim>\<open>blog_generation_task_<suggestionId>\<close> that
  is not the empty string: when it parses to a value other than \<^verbatim>\<open>null\<close> whose \<^verbatim>\<open>startTime\<close>, as a
  number, is less than 10 minutes (600000 ms) before now, the task is resumed, which is the
  generating state followed by \<^verbatim>\<open>_pollTaskStatus\<close> with the stored task id (its first events
  are the 2000 ms timer and the status request for that id); in every other case, the one
  of data that does not parse among them, the entry is removed and nothing else happens.
\<close>

theorem checkForOngoingTask_resumes_recent_task:
  assumes "localStorage st (taskKey (suggestionIdValue st)) = Some taskData"
    and "taskData \<noteq> []"
  shows "((\<exists>t. stored_startTime rt taskData = Some t \<and> now - t < 600000) \<longrightarrow>
            checkForOngoingTask rt now srv st
              = pollTaskStatus rt srv (stored_taskId rt taskData) (show_generating st)
            \<and> (\<exists>rest. events (checkForOngoingTask rt now srv st)
                  = events st @ SetTimeout 2000 # Fetch (TaskStatus (stored_taskId rt taskData)) # rest))
       \<and> (\<not> (\<exists>t. stored_startTime rt taskData = Some t \<and> now - t < 600000) \<longrightarrow>
            checkForOngoingTask rt now srv st = removeItem (taskKey (suggestionIdValue st)) st)
       \<and> (JSON_parse rt taskData = None \<longrightarrow>
            checkForOngoingTask rt now srv st = removeItem (taskKey (suggestionIdValue st)) st)"
proof -
  let ?recent = "\<exists>t. stored_startTime rt taskData = Some t \<and> now - t < 600000"
  have recent: "checkForOngoingTask rt now srv st
      = pollTaskStatus rt srv (stored_taskId rt taskData) (show_generating st)" if ?recent
    using that assms
    by (auto simp: checkForOngoingTask_def stored_startTime_def stored_taskId_def started_recently_iff
        split: option.splits json.splits)
  have stale: "checkForOngoingTask rt now srv st = removeItem (taskKey (suggestionIdValue st)) st"
    if "\<not> ?recent"
    using that assms
    by (auto simp: checkForOngoingTask_def stored_startTime_def started_recently_iff
        split: option.splits json.splits)
  have unparsed: "\<not> ?recent" if "JSON_parse rt taskData = None"
    using that by (simp add: stored_startTime_def)
  from pollTaskStatus_starts [of rt srv "stored_taskId rt taskData" "show_generating st"]
  have "\<exists>rest. events (pollTaskStatus rt srv (stored_taskId rt taskData) (show_generating st))
      = events st @ SetTimeout 2000 # Fetch (TaskStatus (stored_taskId rt taskData)) # rest"
    by simp
  with recent stale unparsed show ?thesis by metis
qed

lemma stored_task_read:
  "stored_startTime runtime_example stored_task = Some 1000"
  "stored_taskId runtime_example stored_task = Some (JStr ''t1'')"
  by (simp_all add: stored_startTime_def stored_taskId_def runtime_example_def)

lemma stored_entry:
  "localStorage task_controller_stored (taskKey (suggestionIdValue task_controller_stored)) = Some stored_task"
  "stored_task \<noteq> []"
  by (simp_all add: task_controller_stored_def task_controller_example_def stored_task_def)

theorem checkForOngoingTask_resumes_recent_task_witness:
  "take 2 (events (checkForOngoingTask runtime_example 61000 server_processing task_controller_stored))
     = [SetTimeout 2000, Fetch (TaskStatus (Some (JStr ''t1'')))]
   \<and> checkForOngoingTask runtime_example 601000 server_processing task_controller_stored
     = removeItem ''blog_generation_task_7'' task_controller_stored"
proof -
  have key: "taskKey (suggestionIdValue task_controller_stored) = ''blog_generation_task_7''"
    by (simp add: taskKey_def task_controller_stored_def task_controller_example_def digits_7)
  have idle: "events task_controller_stored = []"
    by (simp add: task_controller_stored_def task_controller_example_def)
  from checkForOngoingTask_resumes_recent_task
    [OF stored_entry, of runtime_example 61000 server_processing]
  obtain rest where "events (checkForOngoingTask runtime_example 61000 server_processing task_controller_stored)
      = events task_controller_stored @ SetTimeout 2000 # Fetch (TaskStatus (Some (JStr ''t1''))) # rest"
    by (auto simp: stored_task_read)
  then have resumed: "take 2 (events (checkForOngoingTask runtime_example 61000 server_processing task_controller_stored))
     = [SetTimeout 2000, Fetch (TaskStatus (Some (JStr ''t1'')))]"
    by (simp add: idle)
  from checkForOngoingTask_resumes_recent_task
    [OF stored_entry, of runtime_example 601000 server_processing]
  have "checkForOngoingTask runtime_example 601000 server_processing task_controller_stored
     = removeItem ''blog_generation_task_7'' task_controller_stored"
    by (simp add: stored_task_read key)
  with resumed show ?thesis by simp
qed

text \<open>
  C5 as stated fails on an entry that holds the empty string: that is data which does not
  parse, and \<^verbatim>\<open>if (taskData)\<close> skips it, so the entry is neither resumed nor removed.
\<close>

theorem checkForOngoingTask_counterexample:
  "localStorage task_controller_empty_entry ''blog_generation_task_7'' = Some []
   \<and> JSON_parse runtime_example [] = None
   \<and> checkForOngoingTask runtime_example 0 server_processing task_controller_empty_entry
       = task_controller_empty_entry
   \<and> localStorage (checkForOngoingTask runtime_example 0 server_processing task_controller_empty_entry)
       ''blog_generation_task_7'' = Some []"
  by (simp add: checkForOngoingTask_def task_controller_empty_entry_def task_controller_example_def
      taskKey_def digits_7 runtime_example_def stored_task_def)

subsection \<open>Running the pipeline\<close>

lemma events_updateProgressStep [simp]: "events (updateProgressStep s m t st) = events st"
  by (simp add: updateProgressStep_def split: option.splits)

lemma blogPostId_updateProgressStep [simp]: "blogPostId (updateProgressStep s m t st) = blogPostId st"
  by (simp add: updateProgressStep_def split: option.splits)

lemma blogPostId_emit [simp]: "blogPostId (emit e st) = blogPostId st"
  by (simp add: emit_def)

lemma executeStep_gc_events [simp]:
  "events (snd (executeStep_gc srv s st)) = events st @ [Fetch (PipelineStep (blogPostId st) s)]"
  by (simp add: executeStep_gc_def fetch_eq Let_def
      split: response.splits option.splits json.splits)

lemma executeStep_gc_blogPostId [simp]:
  "blogPostId (snd (executeStep_gc srv s st)) = blogPostId st"
  by (simp add: executeStep_gc_def fetch_eq Let_def
      split: response.splits option.splits json.splits)

lemma executeStep_gc_completed:
  "fst (executeStep_gc srv s st) = None
   \<longleftrightarrow> step_completed s (srv (requests (events st) @ [PipelineStep (blogPostId st) s]))"
  by (simp add: executeStep_gc_def fetch_eq Let_def step_completed_def step_reported_failed_def
      split: response.splits option.splits json.splits)

lemma execute_steps_requests:
  "requests (events (snd (execute_steps srv todo st)))
   = requests (events st)
     @ map (PipelineStep (blogPostId st)) (steps_run step_completed srv (requests (events st)) (blogPostId st) todo)"
proof (induction todo arbitrary: st)
  case Nil
  show ?case by simp
next
  case (Cons s rest)
  obtain r st1 where run: "executeStep_gc srv s st = (r, st1)" by (cases "executeStep_gc srv s st")
  from run have ev: "events st1 = events st @ [Fetch (PipelineStep (blogPostId st) s)]"
    and pid: "blogPostId st1 = blogPostId st"
    using executeStep_gc_events [of srv s st] executeStep_gc_blogPostId [of srv s st] by simp_all
  from run have passed: "r = None
      \<longleftrightarrow> step_completed s (srv (requests (events st) @ [PipelineStep (blogPostId st) s]))"
    using executeStep_gc_completed [of srv s st] by simp
  show ?case
  proof (cases r)
    case None
    with run passed Cons.IH [of st1] ev pid show ?thesis by simp
  next
    case (Some e)
    with run passed ev show ?thesis by simp
  qed
qed

text \<open>The run of a list of steps, whatever passing means.\<close>

lemma steps_run_take:
  "steps_run passes srv hist pid todo = take (length (steps_run passes srv hist pid todo)) todo"
  by (induction todo arbitrary: hist) simp_all

lemma steps_run_length: "length (steps_run passes srv hist pid todo) \<le> length todo"
  by (induction todo arbitrary: hist) simp_all

lemma steps_run_nonempty: "todo \<noteq> [] \<Longrightarrow> 0 < length (steps_run passes srv hist pid todo)"
  by (cases todo) simp_all

lemma steps_run_passed:
  "Suc i < length (steps_run passes srv hist pid todo)
   \<Longrightarrow> passes (todo ! i) (answer_to_step srv hist pid todo i)"
proof (induction todo arbitrary: hist i)
  case Nil
  then show ?case by simp
next
  case (Cons s rest)
  show ?case
  proof (cases "passes s (srv (hist @ [PipelineStep pid s]))")
    case False
    with Cons.prems show ?thesis by simp
  next
    case True
    show ?thesis
    proof (cases i)
      case 0
      with True show ?thesis by (simp add: answer_to_step_def)
    next
      case (Suc j)
      with True Cons.prems
      have "Suc j < length (steps_run passes srv (hist @ [PipelineStep pid s]) pid rest)" by simp
      from Cons.IH [OF this] Suc show ?thesis by (simp add: answer_to_step_def)
    qed
  qed
qed

lemma steps_run_stopped:
  "length (steps_run passes srv hist pid todo) < length todo
   \<Longrightarrow> \<not> passes (todo ! (length (steps_run passes srv hist pid todo) - 1))
          (answer_to_step srv hist pid todo (length (steps_run passes srv hist pid todo) - 1))"
proof (induction todo arbitrary: hist)
  case Nil
  then show ?case by simp
next
  case (Cons s rest)
  show ?case
  proof (cases "passes s (srv (hist @ [PipelineStep pid s]))")
    case False
    then show ?thesis by (simp add: answer_to_step_def)
  next
    case True
    let ?run = "steps_run passes srv (hist @ [PipelineStep pid s]) pid rest"
    from True Cons.prems have short: "length ?run < length rest" by simp
    then have "rest \<noteq> []" by auto
    then have pos: "0 < length ?run" by (rule steps_run_nonempty)
    from Cons.IH [OF short] pos True show ?thesis
      by (cases "length ?run") (simp_all add: answer_to_step_def)
  qed
qed

lemma steps_run_summary:
  "\<exists>k. k \<le> length todo \<and> (todo \<noteq> [] \<longrightarrow> 0 < k)
      \<and> steps_run passes srv hist pid todo = take k todo
      \<and> (\<forall>i. Suc i < k \<longrightarrow> passes (todo ! i) (answer_to_step srv hist pid todo i))
      \<and> (k < length todo \<longrightarrow> \<not> passes (todo ! (k - 1)) (answer_to_step srv hist pid todo (k - 1)))"
  using steps_run_take [of passes srv hist pid todo] steps_run_length [of passes srv hist pid todo]
    steps_run_nonempty [of todo passes srv hist pid] steps_run_passed [of _ passes srv hist pid todo]
    steps_run_stopped [of passes srv hist pid todo]
  by (intro exI [of _ "length (steps_run passes srv hist pid todo)"]) blast

lemma requests_hideProgressDialog [simp]: "events (hideProgressDialog st) = events st"
  by (simp add: hideProgressDialog_def)

lemma requests_generate_caught_gc [simp]:
  "requests (events (generate_caught_gc e st)) = requests (events st)"
  by (simp add: generate_caught_gc_def Let_def)

lemma requests_continue_caught [simp]:
  "requests (events (continue_caught e st)) = requests (events st)"
  by (simp add: continue_caught_def Let_def)

lemma appendPostButton_events:
  "appendPostButton rt p s = (r, s') \<Longrightarrow> events s' = events s"
  using events_appendPostButton [of rt p s] by simp

lemma requests_show_generated [simp]:
  "requests (events (snd (show_generated rt m st))) = requests (events st)"
  by (auto simp: show_generated_def Let_def split: prod.splits option.splits
      dest!: appendPostButton_events)


text \<open>The pipeline controller.\<close>

lemma frame_updateStepStatus [simp]:
  "events (updateStepStatus i row st) = events st"
  "blogPostId_p (updateStepStatus i row st) = blogPostId_p st"
  "retryCount (updateStepStatus i row st) = retryCount st"
  by (simp_all add: updateStepStatus_def)

lemma frame_updateProgress [simp]:
  "events (updateProgress p st) = events st"
  "blogPostId_p (updateProgress p st) = blogPostId_p st"
  "retryCount (updateProgress p st) = retryCount st"
  by (simp_all add: updateProgress_def)

lemma frame_showError [simp]:
  "events (showError m st) = events st"
  "blogPostId_p (showError m st) = blogPostId_p st"
  "retryCount (showError m st) = retryCount st"
  by (simp_all add: showError_def)

lemma frame_showRetryOption [simp]:
  "events (showRetryOption step i st) = events st"
  "blogPostId_p (showRetryOption step i st) = blogPostId_p st"
  "retryCount (showRetryOption step i st) = retryCount st"
  by (simp_all add: showRetryOption_def)

lemma frame_emit_pipeline [simp]:
  "blogPostId_p (emit e st) = blogPostId_p st"
  "retryCount (emit e st) = retryCount st"
  by (simp_all add: emit_def)



lemma executeStep_retryCount [simp]:
  "retryCount (snd (executeStep srv step i st)) = retryCount st"
  by (simp add: executeStep_def fetch_eq Let_def split: response.splits option.splits json.splits)



lemma requests_onPipelineComplete [simp]:
  "requests (events (onPipelineComplete st)) = requests (events st)"
  by (simp add: onPipelineComplete_def)









subsection \<open>Continuing the pipeline\<close>

lemma events_showProgressDialog [simp]: "events (showProgressDialog st) = events st"
  by (simp add: showProgressDialog_def)

lemma tick_completed_Some:
  "entries_readable es \<Longrightarrow> tick_completed es st \<noteq> None"
  by (induction es arbitrary: st) (auto split: option.splits if_splits)

lemma tick_completed_frame:
  "tick_completed es st = Some st' \<Longrightarrow> events st' = events st \<and> blogPostId st' = blogPostId st"
proof (induction es arbitrary: st)
  case Nil
  then show ?case by simp
next
  case (Cons e es)
  obtain name info where e: "e = (name, info)" by (cases e)
  show ?case
  proof (cases "step_name_map name")
    case None
    with Cons.prems e have "tick_completed es st = Some st'" by (simp split: if_splits)
    then show ?thesis by (rule Cons.IH)
  next
    case (Some frontend)
    show ?thesis
    proof (cases "get_prop info ''status'' = Some (JStr ''completed'')")
      case True
      with Cons.prems e Some
      have "tick_completed es (updateProgressStep frontend Check (Lit (getStepDisplayName frontend)) st) = Some st'"
        by (simp split: if_splits)
      from Cons.IH [OF this] show ?thesis by simp
    next
      case False
      with Cons.prems e Some have "tick_completed es st = Some st'" by (simp split: if_splits)
      then show ?thesis by (rule Cons.IH)
    qed
  qed
qed

lemma tick_completed_readable:
  "entries_readable es \<Longrightarrow>
     \<exists>st'. tick_completed es st = Some st' \<and> events st' = events st \<and> blogPostId st' = blogPostId st"
  using tick_completed_Some [of es st] tick_completed_frame [of es st] by auto

lemma tick_from_status_readable:
  assumes "status_readable statusData"
  shows "\<exists>st'. tick_from_status statusData st = Some st' \<and> events st' = events st
                \<and> blogPostId st' = blogPostId st"
  using assms tick_completed_readable
  by (auto simp: status_readable_def tick_from_status_def split: option.splits if_splits)

lemma not_completed_recorded:
  "not_completed statusData s \<longleftrightarrow> recorded_status statusData s \<noteq> Some (JStr ''completed'')"
  by (auto simp: not_completed_def recorded_status_def split: option.splits)

lemma steps_to_execute_recorded:
  "steps_to_execute statusData
   = filter (\<lambda>s. recorded_status statusData s \<noteq> Some (JStr ''completed'')) the_pipeline_steps"
  by (simp add: steps_to_execute_def not_completed_recorded cong: filter_cong)

lemma continue_gc_requests:
  assumes "srv (requests (events st) @ [PipelineStatus (Some (JNum blog_post_id))]) = Response True (Some statusData)"
    and "statusData \<noteq> JNull" and "status_readable statusData"
  shows "requests (events (continue_gc rt srv blog_post_id st))
         = requests (events st) @ PipelineStatus (Some (JNum blog_post_id))
           # map (PipelineStep (Some (JNum blog_post_id)))
               (steps_run step_completed srv (requests (events st) @ [PipelineStatus (Some (JNum blog_post_id))])
                  (Some (JNum blog_post_id)) (steps_to_execute statusData))"
proof -
  let ?pid = "Some (JNum blog_post_id)"
  let ?st1 = "emit (Fetch (PipelineStatus ?pid))
                (showProgressDialog (st\<lparr>blogPostId := ?pid, buttonContainer := ContinuingButton\<rparr>))"
  from tick_from_status_readable [OF assms(3), of ?st1] obtain st2 where
    ticked: "tick_from_status statusData ?st1 = Some st2"
    and ev2: "events st2 = events ?st1" and pid2: "blogPostId st2 = blogPostId ?st1"
    by blast
  let ?st3 = "st2\<lparr>pipelineSteps := the_pipeline_steps\<rparr>"
  have hist: "requests (events ?st3) = requests (events st) @ [PipelineStatus ?pid]"
    and pid: "blogPostId ?st3 = ?pid"
    by (simp_all add: ev2 pid2 showProgressDialog_def)
  obtain r st4 where run: "execute_steps srv (steps_to_execute statusData) ?st3 = (r, st4)"
    by (cases "execute_steps srv (steps_to_execute statusData) ?st3")
  from execute_steps_requests [of srv "steps_to_execute statusData" ?st3] run hist pid
  have sent: "requests (events st4) = requests (events st) @ PipelineStatus ?pid
           # map (PipelineStep ?pid)
               (steps_run step_completed srv (requests (events st) @ [PipelineStatus ?pid]) ?pid
                  (steps_to_execute statusData))"
    by simp
  have res: "continue_gc rt srv blog_post_id st
      = (case r of
           Some e \<Rightarrow> continue_caught e st4
         | None \<Rightarrow> (case show_generated rt ''Blog post generation completed!'' st4 of
                      (Some e, st5) \<Rightarrow> continue_caught e st5
                    | (None, st5) \<Rightarrow> st5))"
    using assms(1,2) run ticked
    by (cases statusData) (simp_all add: continue_gc_def fetch_eq Let_def)
  show ?thesis
  proof (cases r)
    case (Some e)
    with res sent show ?thesis by simp
  next
    case None
    obtain r5 st5 where fin: "show_generated rt ''Blog post generation completed!'' st4 = (r5, st5)"
      by (cases "show_generated rt ''Blog post generation completed!'' st4")
    from fin requests_show_generated [of rt "''Blog post generation completed!''" st4]
    have "requests (events st5) = requests (events st4)" by simp
    with None res sent fin show ?thesis by (cases r5) simp_all
  qed
qed

text \<open>
  C3, as amended. When \<^verbatim>\<open>continue\<close> gets the pipeline status (a response that is ok, with a
  JSON body other than \<^verbatim>\<open>null\<close> in which no entry of a pipeline step is \<^verbatim>\<open>null\<close>), let \<open>todo\<close> be
  the steps of the pipeline, in its order, whose recorded status is not \<^verbatim>\<open>completed\<close>; a step
  with no recorded status is among them. The handler requests the status and then the
  first \<open>k\<close> steps of \<open>todo\<close>, in order, and no other step: every step before the last one
  requested completed successfully, and when it stops short of \<open>todo\<close> the last step
  requested failed. So it executes exactly the steps of \<open>todo\<close> when each of them completes
  successfully, and the steps of \<open>todo\<close> up to the first that fails otherwise.
\<close>

theorem continue_runs_steps_not_completed:
  assumes "srv (requests (events st) @ [PipelineStatus (Some (JNum blog_post_id))]) = Response True (Some statusData)"
    and "statusData \<noteq> JNull" and "status_readable statusData"
    and "todo = filter (\<lambda>s. recorded_status statusData s \<noteq> Some (JStr ''completed'')) the_pipeline_steps"
  shows "\<exists>k. k \<le> length todo
      \<and> requests (events (continue_gc rt srv blog_post_id st))
          = requests (events st) @ PipelineStatus (Some (JNum blog_post_id))
            # map (PipelineStep (Some (JNum blog_post_id))) (take k todo)
      \<and> (\<forall>i. Suc i < k \<longrightarrow>
            step_completed (todo ! i)
              (answer_to_step srv (requests (events st) @ [PipelineStatus (Some (JNum blog_post_id))])
                 (Some (JNum blog_post_id)) todo i))
      \<and> (k < length todo \<longrightarrow> 0 < k \<and>
            \<not> step_completed (todo ! (k - 1))
                (answer_to_step srv (requests (events st) @ [PipelineStatus (Some (JNum blog_post_id))])
                   (Some (JNum blog_post_id)) todo (k - 1)))
      \<and> ((\<forall>i < length todo.
              step_completed (todo ! i)
                (answer_to_step srv (requests (events st) @ [PipelineStatus (Some (JNum blog_post_id))])
                   (Some (JNum blog_post_id)) todo i))
           \<longrightarrow> k = length todo)
      \<and> (\<forall>s \<in> set the_pipeline_steps. recorded_status statusData s = None \<longrightarrow> s \<in> set todo)"
proof -
  let ?hist = "requests (events st) @ [PipelineStatus (Some (JNum blog_post_id))]"
  let ?pid = "Some (JNum blog_post_id)"
  have todo: "steps_to_execute statusData = todo"
    by (simp add: steps_to_execute_recorded assms(4))
  from steps_run_summary [of todo step_completed srv ?hist ?pid]
  obtain k where k: "k \<le> length todo" "todo \<noteq> [] \<longrightarrow> 0 < k"
    and run: "steps_run step_completed srv ?hist ?pid todo = take k todo"
    and before: "\<forall>i. Suc i < k \<longrightarrow> step_completed (todo ! i) (answer_to_step srv ?hist ?pid todo i)"
    and stopped: "k < length todo \<longrightarrow> \<not> step_completed (todo ! (k - 1)) (answer_to_step srv ?hist ?pid todo (k - 1))"
    by blast
  from k have pos: "k < length todo \<longrightarrow> 0 < k" by auto
  have full: "k = length todo"
    if "\<forall>i < length todo. step_completed (todo ! i) (answer_to_step srv ?hist ?pid todo i)"
  proof (rule ccontr)
    assume "k \<noteq> length todo"
    with k have short: "k < length todo" by simp
    with pos have "k - 1 < length todo" by simp
    with that have "step_completed (todo ! (k - 1)) (answer_to_step srv ?hist ?pid todo (k - 1))" by blast
    with stopped short show False by blast
  qed
  from continue_gc_requests [where srv = srv and st = st and rt = rt, OF assms(1-3)] run todo
  have "requests (events (continue_gc rt srv blog_post_id st))
      = requests (events st) @ PipelineStatus ?pid # map (PipelineStep ?pid) (take k todo)"
    by simp
  moreover have "\<forall>s \<in> set the_pipeline_steps. recorded_status statusData s = None \<longrightarrow> s \<in> set todo"
    by (simp add: assms(4))
  ultimately show ?thesis using k before stopped pos full by blast
qed

lemma todo_two_completed:
  "filter (\<lambda>s. recorded_status status_two_completed s \<noteq> Some (JStr ''completed'')) the_pipeline_steps
   = [''preliminary_validation'', ''internal_links'', ''final_validation'']"
  by (simp add: recorded_status_def status_two_completed_def the_pipeline_steps_def
      getBackendStepName_def backend_step_names_def)

lemma continue_ok_answers:
  "i < 3 \<Longrightarrow>
   step_completed ([''preliminary_validation'', ''internal_links'', ''final_validation''] ! i)
     (answer_to_step server_continue_ok [PipelineStatus (Some (JNum 42))] (Some (JNum 42))
        [''preliminary_validation'', ''internal_links'', ''final_validation''] i)"
proof -
  assume "i < 3"
  then consider "i = 0" | "i = 1" | "i = 2" by arith
  then show ?thesis
    by cases
       (simp_all add: answer_to_step_def server_continue_ok_def step_completed_def
          step_reported_failed_def backend_step_names_def)
qed

theorem continue_runs_steps_not_completed_witness:
  "requests (events (continue_gc runtime_example server_continue_ok 42 generate_content_example))
   = [PipelineStatus (Some (JNum 42)),
      PipelineStep (Some (JNum 42)) ''preliminary_validation'',
      PipelineStep (Some (JNum 42)) ''internal_links'',
      PipelineStep (Some (JNum 42)) ''final_validation'']"
proof -
  let ?todo = "[''preliminary_validation'', ''internal_links'', ''final_validation'']"
  have idle: "requests (events generate_content_example) = []"
    by (simp add: generate_content_example_def)
  have status: "server_continue_ok (requests (events generate_content_example) @ [PipelineStatus (Some (JNum 42))])
      = Response True (Some status_two_completed)"
    by (simp add: server_continue_ok_def idle)
  have readable: "status_two_completed \<noteq> JNull" "status_readable status_two_completed"
    by (simp_all add: status_two_completed_def status_readable_def step_name_map_def)
  from continue_runs_steps_not_completed
    [where srv = server_continue_ok and st = generate_content_example and rt = runtime_example
       and todo = ?todo, OF status readable todo_two_completed [symmetric]]
  obtain k where sent: "requests (events (continue_gc runtime_example server_continue_ok 42 generate_content_example))
          = requests (events generate_content_example) @ PipelineStatus (Some (JNum 42))
            # map (PipelineStep (Some (JNum 42))) (take k ?todo)"
    and full: "(\<forall>i < length ?todo. step_completed (?todo ! i)
                (answer_to_step server_continue_ok
                   (requests (events generate_content_example) @ [PipelineStatus (Some (JNum 42))])
                   (Some (JNum 42)) ?todo i))
           \<longrightarrow> k = length ?todo"
    by blast
  have "\<forall>i < length ?todo. step_completed (?todo ! i)
                (answer_to_step server_continue_ok
                   (requests (events generate_content_example) @ [PipelineStatus (Some (JNum 42))])
                   (Some (JNum 42)) ?todo i)"
    using continue_ok_answers by (simp add: idle)
  with full have "k = 3" by simp
  with sent idle show ?thesis by simp
qed

text \<open>
  C3 as stated fails when a step fails: with nothing recorded as completed all five steps
  are to be executed, and on a backend that refuses the first step only \<^verbatim>\<open>structure\<close> is
  requested.
\<close>

theorem continue_counterexample:
  "steps_to_execute (JObj [(''steps'', JObj [])]) = the_pipeline_steps
   \<and> requests (events (continue_gc runtime_example server_continue_fails 42 generate_content_example))
     = [PipelineStatus (Some (JNum 42)), PipelineStep (Some (JNum 42)) ''structure'']"
proof -
  have todo: "steps_to_execute (JObj [(''steps'', JObj [])]) = the_pipeline_steps"
    by (simp add: steps_to_execute_def not_completed_def the_pipeline_steps_def
        getBackendStepName_def backend_step_names_def)
  have idle: "requests (events generate_content_example) = []"
    by (simp add: generate_content_example_def)
  have status: "server_continue_fails (requests (events generate_content_example) @ [PipelineStatus (Some (JNum 42))])
      = Response True (Some (JObj [(''steps'', JObj [])]))"
    by (simp add: server_continue_fails_def idle)
  have readable: "JObj [(''steps'', JObj [])] \<noteq> JNull" "status_readable (JObj [(''steps'', JObj [])])"
    by (simp_all add: status_readable_def)
  have run: "steps_run step_completed server_continue_fails [PipelineStatus (Some (JNum 42))] (Some (JNum 42))
      the_pipeline_steps = [''structure'']"
    by (simp add: the_pipeline_steps_def server_continue_fails_def step_completed_def)
  from continue_gc_requests
    [where srv = server_continue_fails and st = generate_content_example and rt = runtime_example,
     OF status readable]
  have "requests (events (continue_gc runtime_example server_continue_fails 42 generate_content_example))
     = [PipelineStatus (Some (JNum 42)), PipelineStep (Some (JNum 42)) ''structure'']"
    by (simp add: idle todo run)
  with todo show ?thesis by simp
qed

subsection \<open>The pipeline controller's completion and retries\<close>

lemmas pipeline_defs =
  startPipeline_def executeStep_def start_loop.simps retry_loop.simps retryStep_def click_retry_def
  retry_offered_def fetch_eq emit_def showRetryOption_def showError_def hideError_def retries_def
  updateStepStatus_def updateProgress_def renderSteps_def onPipelineComplete_def showMessage_def
  start_caught_def maxRetries_def stepNames_def Let_def

text \<open>
  C2. The code does not do what the claim says. \<^verbatim>\<open>startPipeline\<close> calls \<^verbatim>\<open>onPipelineComplete\<close>
  after its loop whether or not the loop was left by \<^verbatim>\<open>break\<close>. On a backend that starts
  post 42 and fails the first step, the handler requests the start and the step
  \<^verbatim>\<open>structure\<close> and nothing more, the first row is marked failed and the others stay
  pending, and yet the success message is shown, the progress bar is at 100 and the close
  button shows the link to the post.
\<close>

theorem startPipeline_completes_after_failed_step:
  "steps started_and_failed = [Failed, Pending, Pending, Pending, Pending]
   \<and> events started_and_failed
       = [Fetch (PipelineStart 7), Fetch (PipelineStep (Some (JNum 42)) ''structure''),
          ShowMessage Success (Lit ''Blog post generated successfully!'')]
   \<and> progressBar started_and_failed = 100
   \<and> closeButtonHidden started_and_failed = False
   \<and> closeButton started_and_failed = Some (3, Some (JNum 42))"
  by (simp add: started_and_failed_def pipeline_example_def server_steps_fail_def pipeline_defs)

text \<open>What \<^verbatim>\<open>executeStep\<close> does when the step's response reports an error, and what a click on
  the retry button does to the count: the parts of C4 that hold.\<close>

lemma executeStep_on_error:
  assumes "srv (requests (events st) @ [PipelineStep (blogPostId_p st) (fst step)]) = Response ok (Some data)"
    and "get_prop data ''status'' = Some (JStr ''error'')"
  shows "executeStep srv step i st
         = (False,
            if retries st (fst step) < 3
            then showRetryOption step i
                   (updateStepStatus i Failed
                      (emit (Fetch (PipelineStep (blogPostId_p st) (fst step))) (updateStepStatus i InProgress st)))
            else showError (StepFailedAfterAttempts (snd step) 3 (get_prop data ''message''))
                   (updateStepStatus i Failed
                      (emit (Fetch (PipelineStep (blogPostId_p st) (fst step))) (updateStepStatus i InProgress st))))"
  using assms
  by (cases data)
     (simp_all add: executeStep_def fetch_eq Let_def maxRetries_def retries_def updateStepStatus_def emit_def)

lemma retryStep_increments:
  "retries (retryStep srv stepKey stepIndex st) stepKey = retries st stepKey + 1"
proof -
  let ?st0 = "hideError (st\<lparr>retryCount := (retryCount st)(stepKey \<mapsto> retries st stepKey + 1)\<rparr>)"
  let ?st1 = "emit (Fetch (PipelineRetry (blogPostId_p st) stepKey)) ?st0"
  have start: "retryCount ?st1 stepKey = Some (retries st stepKey + 1)"
    by (simp add: hideError_def)
  have loop: "retryCount (retry_loop srv j todo s) = retryCount s" for j todo s
  proof (induction todo arbitrary: j s)
    case Nil
    show ?case by simp
  next
    case (Cons nextStep rest)
    obtain ok s1 where run: "executeStep srv nextStep j s = (ok, s1)"
      by (cases "executeStep srv nextStep j s")
    with executeStep_retryCount [of srv nextStep j s] have "retryCount s1 = retryCount s" by simp
    with run Cons.IH [of "Suc j" s1] show ?case by (cases ok) simp_all
  qed
  have complete: "retryCount (onPipelineComplete s) = retryCount s" for s
    by (simp add: onPipelineComplete_def showMessage_def emit_def updateProgress_def)
  have "retryCount (retryStep srv stepKey stepIndex st) stepKey = Some (retries st stepKey + 1)"
  proof (cases "srv (requests (events ?st0) @ [PipelineRetry (blogPostId_p st) stepKey])")
    case NetworkError
    then show ?thesis
      using start by (simp add: retryStep_def fetch_eq Let_def hideError_def)
  next
    case (Response ok body)
    show ?thesis
    proof (cases "stepIndex < length stepNames")
      case False
      with Response show ?thesis
        using start by (simp add: retryStep_def fetch_eq Let_def hideError_def)
    next
      case True
      obtain ok1 s2 where run: "executeStep srv (stepNames ! stepIndex) stepIndex ?st1 = (ok1, s2)"
        by (cases "executeStep srv (stepNames ! stepIndex) stepIndex ?st1")
      have "retryCount s2 = retryCount ?st1"
        using arg_cong [OF run, of "\<lambda>p. retryCount (snd p)"] by simp
      with Response True run start show ?thesis
        by (cases ok1) (simp_all add: retryStep_def fetch_eq Let_def hideError_def loop complete)
    qed
  qed
  then show ?thesis by (simp add: retries_def)
qed

text \<open>
  C4. The code does not do what the claim says. Nothing hides the retry button once
  \<^verbatim>\<open>showRetryOption\<close> has shown it: \<^verbatim>\<open>retryStep\<close> hides the error message only. On a backend
  that fails every step, after the start and three clicks on the retry button the count of
  \<^verbatim>\<open>structure\<close> is 3 and the error says the step failed after 3 attempts, as claimed; but
  the retry button is still on offer (it still says one attempt is left), and a fourth
  click retries again: two more requests are sent and the count is 4.
\<close>

theorem retry_still_offered_after_three_retries:
  "retryCount retried_three_times ''structure'' = Some 3
   \<and> errorMessage retried_three_times
       = Some (StepFailedAfterAttempts ''Generate Structure'' 3 (Some (JStr ''boom'')))
   \<and> errorMessageHidden retried_three_times = False
   \<and> retryButton retried_three_times = Some (''structure'', 0, 1)
   \<and> retry_offered retried_three_times
   \<and> retryCount (click_retry server_steps_fail retried_three_times) ''structure'' = Some 4
   \<and> requests (events (click_retry server_steps_fail retried_three_times))
       = requests (events retried_three_times)
         @ [PipelineRetry (Some (JNum 42)) ''structure'', PipelineStep (Some (JNum 42)) ''structure'']"
  by (simp add: retried_three_times_def started_and_failed_def pipeline_example_def
      server_steps_fail_def pipeline_defs)

end
